theory Spec2Isabelle
  imports Complex_Main
begin

section \<open>Data model of the journey map (LeafletMap)\<close>

text \<open>
  The interfaces \<open>Location\<close> and \<open>Trip\<close> of the map component. Coordinates are reals
  and the trip index is an integer. A number literal is written as the source writes it;
  \<open>parsed\<close> below rounds the coordinates of a trip to the binary64 values the program
  holds. The viewport computation rounds every sum, difference and quotient as binary64
  arithmetic does; the interpolation of the animation is modelled on the reals. The
  optional field \<open>notes\<close> of a trip is read by no function modelled here and is left
  out. Field names that clash with constants of HOL carry a suffix.
\<close>

datatype trip_type = ROUND_TRIP | ONE_WAY

datatype transport_mode = PLANE | CAR | TRAIN | BOAT | WALKING

record Location =
  id_loc :: string
  name_loc :: string
  city :: string
  country :: string
  latitude :: real
  longitude :: real

record Trip =
  id_trip :: string
  title :: string
  type_trip :: trip_type
  departureLocation :: Location
  arrivalLocation :: Location
  startDate :: string
  endDate :: string
  transport :: transport_mode
  travelers :: "string list"
  order_trip :: int

type_synonym LatLng = "real \<times> real"

datatype error = TypeError

subsection \<open>JavaScript array reads\<close>

text \<open>
  \<open>xs[i]\<close> is \<open>undefined\<close> outside the array (here \<open>None\<close>); \<open>xs.slice(0, e)\<close> counts a
  negative \<open>e\<close> from the end of the array and clips the result to the array.
\<close>

definition js_index :: "'a list \<Rightarrow> int \<Rightarrow> 'a option" where
  "js_index xs i = (if 0 \<le> i \<and> i < int (length xs) then Some (xs ! nat i) else None)"

definition js_slice0 :: "'a list \<Rightarrow> int \<Rightarrow> 'a list" where
  "js_slice0 xs e =
     (let n = int (length xs);
          k = (if e < 0 then max (n + e) 0 else min e n)
      in take (nat k) xs)"

subsection \<open>Leg resolution\<close>

definition visibleTrips :: "Trip list \<Rightarrow> int \<Rightarrow> Trip list" where
  "visibleTrips trips currentTripIndex = js_slice0 trips (currentTripIndex + 1)"

definition currentTrip :: "Trip list \<Rightarrow> int \<Rightarrow> Trip option" where
  "currentTrip trips currentTripIndex = js_index trips currentTripIndex"

text \<open>The pair \<open>[loc.latitude, loc.longitude]\<close> the source builds from a location.\<close>

definition coords :: "Location \<Rightarrow> LatLng" where
  "coords loc = (latitude loc, longitude loc)"

text \<open>
  \<open>getCurrentJourneyPath\<close>: the empty list when there is no current trip or no previous
  trip, else the two end points of the leg. No step of it can throw: every property read
  is on a value the source has tested before.
\<close>

definition getCurrentJourneyPath :: "Trip list \<Rightarrow> int \<Rightarrow> LatLng list" where
  "getCurrentJourneyPath trips currentTripIndex =
     (case currentTrip trips currentTripIndex of
        None \<Rightarrow> []
      | Some currentTripData \<Rightarrow>
          if type_trip currentTripData = ROUND_TRIP then
            [coords (departureLocation currentTripData),
             coords (arrivalLocation currentTripData)]
          else if currentTripIndex = 0 then
            [coords (departureLocation currentTripData),
             coords (arrivalLocation currentTripData)]
          else
            (case js_index (visibleTrips trips currentTripIndex) (currentTripIndex - 1) of
               None \<Rightarrow> []
             | Some previousTrip \<Rightarrow>
                 (let startLocation =
                        (if type_trip previousTrip = ROUND_TRIP
                         then departureLocation previousTrip
                         else arrivalLocation previousTrip)
                  in [coords startLocation, coords (arrivalLocation currentTripData)])))"

subsection \<open>Numbers of JavaScript\<close>

text \<open>
  A JavaScript number is an IEEE 754 binary64 value. \<open>fl64\<close> rounds a real to the nearest
  binary64 value, a tie to the even mantissa: a normal value has a mantissa of 53 bits,
  a subnormal one the fixed exponent -1074. The operators \<open>+\<close>, \<open>-\<close> and \<open>/\<close> of the
  source are the exact operation followed by this rounding; comparisons, \<open>Math.min\<close> and
  \<open>Math.max\<close> are exact. A result of magnitude \<open>2 ^ 1024\<close> or more, which the source
  turns into Infinity, and NaN are not modelled: \<open>no_overflow\<close> bounds an operand so that
  no sum or difference of two operands gets there.
\<close>

definition pow2 :: "int \<Rightarrow> real" where
  "pow2 e = (if 0 \<le> e then 2 ^ nat e else 1 / 2 ^ nat (- e))"

definition round_half_even :: "real \<Rightarrow> int" where
  "round_half_even x =
     (let f = \<lfloor>x\<rfloor>;
          d = x - of_int f
      in if d < 1 / 2 then f
         else if 1 / 2 < d then f + 1
         else if even f then f
         else f + 1)"

definition fl64 :: "real \<Rightarrow> real" where
  "fl64 x =
     (if x = 0 then 0
      else (let e = max (\<lfloor>log 2 \<bar>x\<bar>\<rfloor> - 52) (- 1074)
            in of_int (round_half_even (x / pow2 e)) * pow2 e))"

definition js_add :: "real \<Rightarrow> real \<Rightarrow> real" where
  "js_add x y = fl64 (x + y)"

definition js_sub :: "real \<Rightarrow> real \<Rightarrow> real" where
  "js_sub x y = fl64 (x - y)"

definition js_div :: "real \<Rightarrow> real \<Rightarrow> real" where
  "js_div x y = fl64 (x / y)"

definition no_overflow :: "real \<Rightarrow> bool" where
  "no_overflow x = (\<bar>x\<bar> \<le> 2 ^ 1022)"

subsection \<open>Viewport framing\<close>

record MapBounds =
  center :: LatLng
  zoom :: int

text \<open>
  The chain \<open>let zoom = 8; if (maxDiff > 50) zoom = 3; else if ...\<close> of \<open>getMapBounds\<close>.
\<close>

definition zoomFor :: "real \<Rightarrow> int" where
  "zoomFor maxDiff =
     (if maxDiff > 50 then 3
      else if maxDiff > 20 then 4
      else if maxDiff > 10 then 5
      else if maxDiff > 5 then 6
      else if maxDiff > 2 then 7
      else 8)"

text \<open>
  \<open>getMapBounds\<close>. Reading a property of \<open>undefined\<close> (\<open>firstTrip.departureLocation\<close>,
  \<open>startCoords[0]\<close>, \<open>endCoords[0]\<close>) throws a TypeError in the source; the model returns
  \<open>Inl TypeError\<close> there.
  The sums, the halving and the differences are the rounded operations of binary64.
\<close>

definition getMapBounds :: "Trip list \<Rightarrow> int \<Rightarrow> error + MapBounds" where
  "getMapBounds trips currentTripIndex =
     (let vis = visibleTrips trips currentTripIndex;
          currentJourneyPath = getCurrentJourneyPath trips currentTripIndex
      in if length vis = 0 then Inr \<lparr>center = (39.8283, - 98.5795), zoom = 4\<rparr>
         else if length currentJourneyPath = 0 then
           (case js_index vis 0 of
              None \<Rightarrow> Inl TypeError
            | Some firstTrip \<Rightarrow>
                Inr \<lparr>center = (latitude (departureLocation firstTrip),
                               longitude (departureLocation firstTrip)),
                     zoom = 8\<rparr>)
         else
           (case js_index currentJourneyPath 0 of
              None \<Rightarrow> Inl TypeError
            | Some startCoords \<Rightarrow>
                (case js_index currentJourneyPath 1 of
                   None \<Rightarrow> Inl TypeError
                 | Some endCoords \<Rightarrow>
                     (let minLat = min (fst startCoords) (fst endCoords);
                          maxLat = max (fst startCoords) (fst endCoords);
                          minLng = min (snd startCoords) (snd endCoords);
                          maxLng = max (snd startCoords) (snd endCoords);
                          centerLat = js_div (js_add minLat maxLat) 2;
                          centerLng = js_div (js_add minLng maxLng) 2;
                          latDiff = js_sub maxLat minLat;
                          lngDiff = js_sub maxLng minLng;
                          maxDiff = max latDiff lngDiff
                      in Inr \<lparr>center = (centerLat, centerLng), zoom = zoomFor maxDiff\<rparr>))))"

subsection \<open>The sample journey of the page\<close>

definition losAngeles :: Location where
  "losAngeles = \<lparr>id_loc = ''1'', name_loc = ''Los Angeles'', city = ''Los Angeles'',
     country = ''United States'', latitude = 34.0522, longitude = - 118.2437\<rparr>"

definition lasVegas :: Location where
  "lasVegas = \<lparr>id_loc = ''2'', name_loc = ''Las Vegas'', city = ''Las Vegas'',
     country = ''United States'', latitude = 36.1699, longitude = - 115.1398\<rparr>"

definition houston :: Location where
  "houston = \<lparr>id_loc = ''3'', name_loc = ''Houston'', city = ''Houston'',
     country = ''United States'', latitude = 29.7604, longitude = - 95.3698\<rparr>"

definition sampleTrips :: "Trip list" where
  "sampleTrips =
     [\<lparr>id_trip = ''1'', title = ''Vegas Weekend'', type_trip = ROUND_TRIP,
       departureLocation = losAngeles, arrivalLocation = lasVegas,
       startDate = ''2024-02-16'', endDate = ''2024-02-18'', transport = PLANE,
       travelers = [''You'', ''Celia''], order_trip = 1\<rparr>,
      \<lparr>id_trip = ''2'', title = ''Thanksgiving in Houston'', type_trip = ONE_WAY,
       departureLocation = losAngeles, arrivalLocation = houston,
       startDate = ''2024-11-21'', endDate = ''2024-11-25'', transport = PLANE,
       travelers = [''You'', ''Celia''], order_trip = 2\<rparr>]"

text \<open>
  A number literal of the source denotes the binary64 value nearest to it. \<open>parsed\<close>
  gives the trip that the program holds at run time for a trip written with decimal
  literals. \<open>legJourney\<close> is a journey of one round trip between two points.
\<close>

definition parsedLocation :: "Location \<Rightarrow> Location" where
  "parsedLocation loc =
     loc\<lparr>latitude := fl64 (latitude loc), longitude := fl64 (longitude loc)\<rparr>"

definition parsed :: "Trip \<Rightarrow> Trip" where
  "parsed t =
     t\<lparr>departureLocation := parsedLocation (departureLocation t),
       arrivalLocation := parsedLocation (arrivalLocation t)\<rparr>"

definition legJourney :: "LatLng \<Rightarrow> LatLng \<Rightarrow> Trip list" where
  "legJourney a b =
     [\<lparr>id_trip = ''1'', title = ''Leg'', type_trip = ROUND_TRIP,
       departureLocation =
         \<lparr>id_loc = ''1'', name_loc = ''A'', city = ''A'', country = ''A'',
          latitude = fst a, longitude = snd a\<rparr>,
       arrivalLocation =
         \<lparr>id_loc = ''2'', name_loc = ''B'', city = ''B'', country = ''B'',
          latitude = fst b, longitude = snd b\<rparr>,
       startDate = ''2024-01-01'', endDate = ''2024-01-02'', transport = CAR,
       travelers = [''You''], order_trip = 1\<rparr>]"

section \<open>The animation driver\<close>

text \<open>
  The map effect of LeafletMap that animates the current leg, and the hook
  \<open>useLeafletComponent\<close> of AnimatedJourneyLine, an earlier copy of the same work that
  no component of the page calls.
  The Leaflet map is modelled by the layer objects created so far (\<open>objs\<close>, a layer's
  index is its identity) and by the layers the map holds (\<open>onMap\<close>). A layer keeps the
  options the properties below read: its \<open>className\<close>, its colour, its points and, for a
  marker, the angle of the \<open>rotate\<close> transform in its icon; weight, opacity, dash array
  and the emoji of the icon are left out. The closure of one run of the effect is a
  \<open>run\<close>. The callbacks handed to \<open>setTimeout\<close> and \<open>requestAnimationFrame\<close> are kept
  in \<open>pending\<close> until they run; \<open>Date.now()\<close> is the argument \<open>now\<close>, in milliseconds.
\<close>

record layer =
  className :: "string option"
  color :: "string option"
  latlngs :: "LatLng list"
  rotation :: "real option"

datatype callback = Animate nat | HideMarker nat | AnimateHook nat | HideMarkerHook nat

datatype task = Timeout nat callback | Frame callback

record run =
  startCoords :: LatLng
  endCoords :: LatLng
  startTime :: int
  animationProgress :: real
  polyline :: nat
  marker :: nat

record world =
  mapLoaded :: bool
  objs :: "layer list"
  onMap :: "nat list"
  runs :: "run list"
  pending :: "task list"

subsection \<open>Operations of the map\<close>

text \<open>
  \<open>addTo\<close>, \<open>hasLayer\<close>, \<open>removeLayer\<close>, \<open>setLatLngs\<close> (also used for \<open>setLatLng\<close> of a
  marker, with one point), and the \<open>eachLayer\<close> sweep at the start of the effect, which
  removes every layer whose \<open>options.className\<close> is \<open>animated-journey\<close>.
\<close>

definition run_at :: "run list \<Rightarrow> nat \<Rightarrow> run option" where
  "run_at rs r = (if r < length rs then Some (rs ! r) else None)"

definition addTo :: "layer \<Rightarrow> world \<Rightarrow> world" where
  "addTo l w = w\<lparr>objs := objs w @ [l], onMap := onMap w @ [length (objs w)]\<rparr>"

definition hasLayer :: "world \<Rightarrow> nat \<Rightarrow> bool" where
  "hasLayer w l = (l \<in> set (onMap w))"

definition removeLayer :: "nat \<Rightarrow> world \<Rightarrow> world" where
  "removeLayer l w = w\<lparr>onMap := removeAll l (onMap w)\<rparr>"

definition setLatLngs :: "nat \<Rightarrow> LatLng list \<Rightarrow> world \<Rightarrow> world" where
  "setLatLngs l pts w =
     (if l < length (objs w)
      then w\<lparr>objs := (objs w)[l := (objs w ! l)\<lparr>latlngs := pts\<rparr>]\<rparr>
      else w)"

definition clearAnimatedJourney :: "world \<Rightarrow> world" where
  "clearAnimatedJourney w =
     w\<lparr>onMap := filter (\<lambda>l. \<not> (l < length (objs w) \<and>
                                  className (objs w ! l) = Some ''animated-journey''))
                        (onMap w)\<rparr>"

subsection \<open>Colour, bearing, interpolation and progress\<close>

text \<open>
  \<open>atan2\<close> is \<open>Math.atan2\<close> of the JavaScript library on the reals, \<open>pi\<close> is \<open>Math.PI\<close>.
  \<open>progressAt\<close> is the first two statements of \<open>animate\<close>:
  \<open>elapsed = Date.now() - startTime; animationProgress = Math.min(elapsed / 2500, 1)\<close>.
\<close>

definition getTravelerColor :: "string list \<Rightarrow> string" where
  "getTravelerColor trav =
     (if ''You'' \<in> set trav \<and> ''Celia'' \<in> set trav then ''#8B5CF6''
      else if ''You'' \<in> set trav then ''#3B82F6''
      else if ''Celia'' \<in> set trav then ''#EC4899''
      else ''#6B7280'')"

definition atan2 :: "real \<Rightarrow> real \<Rightarrow> real" where
  "atan2 y x =
     (if x > 0 then arctan (y / x)
      else if x < 0 then (if y \<ge> 0 then arctan (y / x) + pi else arctan (y / x) - pi)
      else if y > 0 then pi / 2
      else if y < 0 then - pi / 2
      else 0)"

definition calculateRotation :: "LatLng \<Rightarrow> LatLng \<Rightarrow> real" where
  "calculateRotation startC endC =
     (let deltaLng = snd endC - snd startC;
          deltaLat = fst endC - fst startC;
          angle = atan2 deltaLng deltaLat * (180 / pi)
      in angle)"

definition interpolateCoords :: "LatLng \<Rightarrow> LatLng \<Rightarrow> real \<Rightarrow> LatLng" where
  "interpolateCoords startC endC progress =
     (let lat = fst startC + (fst endC - fst startC) * progress;
          lng = snd startC + (snd endC - snd startC) * progress
      in (lat, lng))"

definition progressAt :: "int \<Rightarrow> int \<Rightarrow> real" where
  "progressAt startT now =
     (let elapsed = now - startT
      in min (real_of_int elapsed / 2500) 1)"

subsection \<open>The effect of LeafletMap\<close>

text \<open>
  \<open>journeyEffect\<close> is the body of the effect; it returns the new state and, when it has
  started an animation, the run whose layers the returned clean-up function removes.
  \<open>animate\<close> is one call of the frame callback, \<open>hideMarker\<close> the callback of the timer
  that \<open>animate\<close> sets once the progress is 1, and \<open>cleanup\<close> the clean-up function.
\<close>

definition journeyEffect :: "world \<Rightarrow> Trip list \<Rightarrow> int \<Rightarrow> int \<Rightarrow> world \<times> nat option" where
  "journeyEffect w trips currentTripIndex now =
     (let currentJourneyPath = getCurrentJourneyPath trips currentTripIndex
      in case currentTrip trips currentTripIndex of
           None \<Rightarrow> (w, None)
         | Some trip \<Rightarrow>
             if mapLoaded w \<and> length currentJourneyPath > 1 then
               (let w1 = clearAnimatedJourney w;
                    startC = currentJourneyPath ! 0;
                    endC = currentJourneyPath ! 1;
                    rot = calculateRotation startC endC;
                    pl = length (objs w1);
                    w2 = addTo \<lparr>className = Some ''animated-journey'',
                                color = Some (getTravelerColor (travelers trip)),
                                latlngs = [startC, startC], rotation = None\<rparr> w1;
                    mk = length (objs w2);
                    w3 = addTo \<lparr>className = None, color = None,
                                latlngs = [startC], rotation = Some rot\<rparr> w2;
                    r = length (runs w3);
                    w4 = w3\<lparr>runs := runs w3 @
                                 [\<lparr>startCoords = startC, endCoords = endC, startTime = now,
                                   animationProgress = 0, polyline = pl, marker = mk\<rparr>],
                            pending := pending w3 @ [Timeout 100 (Animate r)]\<rparr>
                in (w4, Some r))
             else (w, None))"

definition animate :: "world \<Rightarrow> nat \<Rightarrow> int \<Rightarrow> world" where
  "animate w r now =
     (case run_at (runs w) r of
        None \<Rightarrow> w
      | Some rn \<Rightarrow>
          (let progress = progressAt (startTime rn) now;
               w0 = w\<lparr>runs := (runs w)[r := rn\<lparr>animationProgress := progress\<rparr>]\<rparr>;
               currentEndCoord = interpolateCoords (startCoords rn) (endCoords rn) progress;
               w1 = setLatLngs (polyline rn) [startCoords rn, currentEndCoord] w0;
               w2 = setLatLngs (marker rn) [currentEndCoord] w1
           in if progress < 1
              then w2\<lparr>pending := pending w2 @ [Frame (Animate r)]\<rparr>
              else w2\<lparr>pending := pending w2 @ [Timeout 800 (HideMarker r)]\<rparr>))"

definition hideMarker :: "world \<Rightarrow> nat \<Rightarrow> world" where
  "hideMarker w r =
     (case run_at (runs w) r of
        None \<Rightarrow> w
      | Some rn \<Rightarrow> if hasLayer w (marker rn) then removeLayer (marker rn) w else w)"

definition cleanup :: "world \<Rightarrow> nat \<Rightarrow> world" where
  "cleanup w r =
     (case run_at (runs w) r of
        None \<Rightarrow> w
      | Some rn \<Rightarrow>
          (let w1 = (if hasLayer w (polyline rn) then removeLayer (polyline rn) w else w);
               w2 = (if hasLayer w1 (marker rn) then removeLayer (marker rn) w1 else w1)
           in w2))"

subsection \<open>The hook of AnimatedJourneyLine\<close>

text \<open>
  The hook creates its two layers without a class name and without a rotation, calls
  \<open>animate\<close> at once, removes the marker 500 ms after the end and does not ask
  \<open>hasLayer\<close> before it removes a layer.
\<close>

definition animateHook :: "world \<Rightarrow> nat \<Rightarrow> int \<Rightarrow> world" where
  "animateHook w r now =
     (case run_at (runs w) r of
        None \<Rightarrow> w
      | Some rn \<Rightarrow>
          (let progress = progressAt (startTime rn) now;
               w0 = w\<lparr>runs := (runs w)[r := rn\<lparr>animationProgress := progress\<rparr>]\<rparr>;
               currentEndCoord = interpolateCoords (startCoords rn) (endCoords rn) progress;
               w1 = setLatLngs (polyline rn) [startCoords rn, currentEndCoord] w0;
               w2 = setLatLngs (marker rn) [currentEndCoord] w1
           in if progress < 1
              then w2\<lparr>pending := pending w2 @ [Frame (AnimateHook r)]\<rparr>
              else w2\<lparr>pending := pending w2 @ [Timeout 500 (HideMarkerHook r)]\<rparr>))"

definition hideMarkerHook :: "world \<Rightarrow> nat \<Rightarrow> world" where
  "hideMarkerHook w r =
     (case run_at (runs w) r of
        None \<Rightarrow> w
      | Some rn \<Rightarrow> removeLayer (marker rn) w)"

definition useLeafletComponent ::
  "world \<Rightarrow> LatLng \<Rightarrow> LatLng \<Rightarrow> string \<Rightarrow> bool \<Rightarrow> int \<Rightarrow> world \<times> nat option" where
  "useLeafletComponent w startC endC col isActive now =
     (if mapLoaded w \<and> isActive then
        (let pl = length (objs w);
             w2 = addTo \<lparr>className = None, color = Some col,
                         latlngs = [startC, startC], rotation = None\<rparr> w;
             mk = length (objs w2);
             w3 = addTo \<lparr>className = None, color = None,
                         latlngs = [startC], rotation = None\<rparr> w2;
             r = length (runs w3);
             w4 = w3\<lparr>runs := runs w3 @
                          [\<lparr>startCoords = startC, endCoords = endC, startTime = now,
                            animationProgress = 0, polyline = pl, marker = mk\<rparr>]\<rparr>
         in (animateHook w4 r now, Some r))
      else (w, None))"

definition cleanupHook :: "world \<Rightarrow> nat \<Rightarrow> world" where
  "cleanupHook w r =
     (case run_at (runs w) r of
        None \<Rightarrow> w
      | Some rn \<Rightarrow> removeLayer (marker rn) (removeLayer (polyline rn) w))"

subsection \<open>The scheduler and React\<close>

text \<open>
  \<open>fire\<close> runs one pending callback at a given time and takes it out of \<open>pending\<close>; the
  delay of a timer is recorded in the task and not enforced, so every order of callbacks
  is covered. \<open>rerender\<close> is what React does when a dependency of the effect changes: it
  calls the clean-up function of the previous run, then the effect.
\<close>

fun run_callback :: "world \<Rightarrow> callback \<Rightarrow> int \<Rightarrow> world" where
  "run_callback w (Animate r) now = animate w r now"
| "run_callback w (HideMarker r) now = hideMarker w r"
| "run_callback w (AnimateHook r) now = animateHook w r now"
| "run_callback w (HideMarkerHook r) now = hideMarkerHook w r"

fun task_callback :: "task \<Rightarrow> callback" where
  "task_callback (Timeout d cb) = cb"
| "task_callback (Frame cb) = cb"

definition fire :: "world \<Rightarrow> task \<times> int \<Rightarrow> world" where
  "fire w ev =
     (if fst ev \<in> set (pending w)
      then run_callback (w\<lparr>pending := remove1 (fst ev) (pending w)\<rparr>)
             (task_callback (fst ev)) (snd ev)
      else w)"

definition fires :: "world \<Rightarrow> (task \<times> int) list \<Rightarrow> world" where
  "fires w evs = foldl fire w evs"

definition rerender :: "world \<Rightarrow> nat option \<Rightarrow> Trip list \<Rightarrow> int \<Rightarrow> int \<Rightarrow> world \<times> nat option" where
  "rerender w prev trips currentTripIndex now =
     journeyEffect (case prev of None \<Rightarrow> w | Some r \<Rightarrow> cleanup w r)
       trips currentTripIndex now"

subsection \<open>Scenarios\<close>

text \<open>
  A loaded, empty map; the first leg of the sample journey started at time 0 and animated
  once at time 100; and the second leg started at time 200 while the first is in flight.
\<close>

definition emptyMap :: world where
  "emptyMap = \<lparr>mapLoaded = True, objs = [], onMap = [], runs = [], pending = []\<rparr>"

definition midFlight :: world where
  "midFlight = fires (fst (journeyEffect emptyMap sampleTrips 0 0)) [(Timeout 100 (Animate 0), 100)]"

definition nextLeg :: world where
  "nextLeg = fst (rerender midFlight (Some 0) sampleTrips 1 200)"

subsection \<open>What a callback leaves alone\<close>

text \<open>
  A step from \<open>w\<close> to \<open>w'\<close> adds no layer to the map and keeps the rotation of every
  layer and the layers of every run.
\<close>

definition keeps :: "world \<Rightarrow> world \<Rightarrow> bool" where
  "keeps w w' =
     (set (onMap w') \<subseteq> set (onMap w) \<and>
      map rotation (objs w') = map rotation (objs w) \<and>
      map polyline (runs w') = map polyline (runs w) \<and>
      map marker (runs w') = map marker (runs w))"


section \<open>Properties of leg resolution and viewport framing\<close>

lemma js_index_in_range:
  "0 \<le> i \<Longrightarrow> i < int (length xs) \<Longrightarrow> js_index xs i = Some (xs ! nat i)"
  by (simp add: js_index_def)

lemma js_index_Some_iff:
  "js_index xs i = Some x \<longleftrightarrow> 0 \<le> i \<and> i < int (length xs) \<and> x = xs ! nat i"
  by (auto simp: js_index_def)

lemma js_index_None_iff: "js_index xs i = None \<longleftrightarrow> i < 0 \<or> int (length xs) \<le> i"
  by (auto simp: js_index_def)

lemma visibleTrips_in_range:
  "0 \<le> i \<Longrightarrow> i < int (length trips) \<Longrightarrow> visibleTrips trips i = take (nat i + 1) trips"
  by (simp add: visibleTrips_def js_slice0_def Let_def nat_add_distrib min_def)

lemma previousTrip_in_range:
  assumes "0 < i" "i < int (length trips)"
  shows "js_index (visibleTrips trips i) (i - 1) = Some (trips ! nat (i - 1))"
proof -
  have vis: "visibleTrips trips i = take (nat i + 1) trips"
    using assms by (simp add: visibleTrips_in_range)
  have len: "length (take (nat i + 1) trips) = nat i + 1"
    using assms by simp
  have "js_index (take (nat i + 1) trips) (i - 1) = Some (take (nat i + 1) trips ! nat (i - 1))"
    using assms len by (intro js_index_in_range) simp_all
  moreover have "take (nat i + 1) trips ! nat (i - 1) = trips ! nat (i - 1)"
    using assms by (intro nth_take) simp
  ultimately show ?thesis by (simp add: vis)
qed

text \<open>
  C1. For a non-empty journey and a cursor in range: a round trip at the cursor, or the
  cursor 0, gives the leg from that trip's departure to its arrival; a one-way trip at a
  cursor above 0 gives the leg that starts at the previous trip's arrival when the previous
  trip is one-way, at the previous trip's departure when it is a round trip, and that ends
  at the current trip's arrival.
\<close>

theorem getCurrentJourneyPath_leg:
  assumes "trips \<noteq> []" and "0 \<le> cursor" and "cursor < int (length trips)"
  shows "(type_trip (trips ! nat cursor) = ROUND_TRIP \<or> cursor = 0 \<longrightarrow>
            getCurrentJourneyPath trips cursor =
              [coords (departureLocation (trips ! nat cursor)),
               coords (arrivalLocation (trips ! nat cursor))]) \<and>
         (type_trip (trips ! nat cursor) = ONE_WAY \<and> 0 < cursor \<longrightarrow>
            getCurrentJourneyPath trips cursor =
              [coords (if type_trip (trips ! nat (cursor - 1)) = ONE_WAY
                       then arrivalLocation (trips ! nat (cursor - 1))
                       else departureLocation (trips ! nat (cursor - 1))),
               coords (arrivalLocation (trips ! nat cursor))])"
proof -
  have cur: "currentTrip trips cursor = Some (trips ! nat cursor)"
    using assms by (simp add: currentTrip_def js_index_in_range)
  have first: "type_trip (trips ! nat cursor) = ROUND_TRIP \<or> cursor = 0 \<Longrightarrow>
      getCurrentJourneyPath trips cursor =
        [coords (departureLocation (trips ! nat cursor)),
         coords (arrivalLocation (trips ! nat cursor))]"
    by (auto simp: getCurrentJourneyPath_def cur)
  have later: "getCurrentJourneyPath trips cursor =
        [coords (if type_trip (trips ! nat (cursor - 1)) = ONE_WAY
                 then arrivalLocation (trips ! nat (cursor - 1))
                 else departureLocation (trips ! nat (cursor - 1))),
         coords (arrivalLocation (trips ! nat cursor))]"
    if ow: "type_trip (trips ! nat cursor) = ONE_WAY" and pos: "0 < cursor"
  proof -
    have prev: "js_index (visibleTrips trips cursor) (cursor - 1) = Some (trips ! nat (cursor - 1))"
      using pos assms(3) by (rule previousTrip_in_range)
    show ?thesis
      using ow pos
      by (cases "type_trip (trips ! nat (cursor - 1))")
         (simp_all add: getCurrentJourneyPath_def cur prev)
  qed
  show ?thesis using first later by blast
qed

theorem getCurrentJourneyPath_leg_witness:
  "sampleTrips \<noteq> [] \<and> (0::int) \<le> 1 \<and> (1::int) < int (length sampleTrips) \<and>
   type_trip (sampleTrips ! nat 1) = ONE_WAY \<and>
   type_trip (sampleTrips ! nat (1 - 1)) = ROUND_TRIP \<and>
   getCurrentJourneyPath sampleTrips 1 = [coords losAngeles, coords houston]"
proof -
  have ne: "sampleTrips \<noteq> []" by (simp add: sampleTrips_def)
  have lo: "(0::int) \<le> 1" by simp
  have hi: "(1::int) < int (length sampleTrips)" by (simp add: sampleTrips_def)
  have ow: "type_trip (sampleTrips ! nat 1) = ONE_WAY" by (simp add: sampleTrips_def)
  have rt: "type_trip (sampleTrips ! nat (1 - 1)) = ROUND_TRIP" by (simp add: sampleTrips_def)
  have dep: "departureLocation (sampleTrips ! nat (1 - 1)) = losAngeles"
    by (simp add: sampleTrips_def)
  have arr: "arrivalLocation (sampleTrips ! nat 1) = houston"
    by (simp add: sampleTrips_def)
  from getCurrentJourneyPath_leg [OF ne lo hi] ow
  have "getCurrentJourneyPath sampleTrips 1 =
          [coords (if type_trip (sampleTrips ! nat (1 - 1)) = ONE_WAY
                   then arrivalLocation (sampleTrips ! nat (1 - 1))
                   else departureLocation (sampleTrips ! nat (1 - 1))),
           coords (arrivalLocation (sampleTrips ! nat 1))]"
    by simp
  then have "getCurrentJourneyPath sampleTrips 1 = [coords losAngeles, coords houston]"
    by (simp only: rt dep arr) simp
  with ne lo hi ow rt show ?thesis by blast
qed

lemma visibleTrips_Nil: "visibleTrips [] cursor = []"
  by (simp add: visibleTrips_def js_slice0_def Let_def)

lemma currentTrip_Some_range:
  "currentTrip trips cursor = Some t \<Longrightarrow> 0 \<le> cursor \<and> cursor < int (length trips)"
  by (simp add: currentTrip_def js_index_Some_iff)

lemma getCurrentJourneyPath_range:
  "getCurrentJourneyPath trips cursor \<noteq> [] \<Longrightarrow> 0 \<le> cursor \<and> cursor < int (length trips)"
  by (cases "currentTrip trips cursor")
     (auto simp: getCurrentJourneyPath_def dest: currentTrip_Some_range)

lemma getCurrentJourneyPath_length:
  "length (getCurrentJourneyPath trips cursor) = 0 \<or>
   length (getCurrentJourneyPath trips cursor) = 2"
  by (simp add: getCurrentJourneyPath_def Let_def split: option.split)

lemma visibleTrips_nonempty:
  assumes "0 \<le> cursor" and "cursor < int (length trips)"
  shows "visibleTrips trips cursor \<noteq> []"
proof -
  have "trips \<noteq> []" using assms by auto
  then show ?thesis using assms by (simp add: visibleTrips_in_range)
qed

lemma js_index_first: "xs \<noteq> [] \<Longrightarrow> js_index xs 0 = Some (hd xs)"
  by (cases xs) (simp_all add: js_index_def)

subsection \<open>Rounding to binary64\<close>

lemma pow2_powr: "pow2 e = 2 powr (of_int e)"
  by (simp add: pow2_def powr_int)

lemma pow2_pos: "0 < pow2 e"
  by (simp add: pow2_powr)

lemma pow2_add: "pow2 (a + b) = pow2 a * pow2 b"
  by (simp add: pow2_powr powr_add)

lemma round_half_even_unique:
  assumes "\<bar>y - of_int n\<bar> < 1 / 2 \<or> (\<bar>y - of_int n\<bar> = 1 / 2 \<and> even n)"
  shows "round_half_even y = n"
proof (cases "of_int n \<le> y")
  case True
  then have "y < of_int n + 1" using assms by linarith
  with True have f: "\<lfloor>y\<rfloor> = n" by (simp add: floor_unique)
  have "y - of_int n < 1 / 2 \<or> (y - of_int n = 1 / 2 \<and> even n)"
    using assms True by linarith
  then show ?thesis
    by (auto simp: round_half_even_def Let_def f)
next
  case False
  then have lo: "of_int (n - 1) \<le> y" and hi: "y < of_int (n - 1) + 1"
    using assms by (simp_all, linarith)
  then have f: "\<lfloor>y\<rfloor> = n - 1" by (rule floor_unique)
  have "1 / 2 < y - of_int (n - 1) \<or> (y - of_int (n - 1) = 1 / 2 \<and> even n)"
    using assms False by (simp, linarith)
  then show ?thesis
    by (auto simp: round_half_even_def Let_def f)
qed

lemma round_half_even_near:
  assumes "of_int n - 1 / 2 < y" and "y < of_int n + 1 / 2"
  shows "round_half_even y = n"
proof -
  have "\<bar>y - of_int n\<bar> < 1 / 2" using assms by linarith
  then show ?thesis by (simp add: round_half_even_unique)
qed

lemma round_half_even_of_int: "round_half_even (of_int n) = n"
  by (rule round_half_even_unique) simp

lemma round_half_even_close:
  "\<bar>x - of_int (round_half_even x)\<bar> < 1 / 2 \<or>
   (\<bar>x - of_int (round_half_even x)\<bar> = 1 / 2 \<and> even (round_half_even x))"
proof -
  let ?f = "\<lfloor>x\<rfloor>"
  let ?d = "x - of_int ?f"
  have d: "0 \<le> ?d" "?d < 1" by linarith+
  consider "?d < 1 / 2" | "1 / 2 < ?d" | "?d = 1 / 2" "even ?f" | "?d = 1 / 2" "odd ?f"
    by linarith
  then show ?thesis
  proof cases
    case 1
    then have "round_half_even x = ?f" by (simp add: round_half_even_def Let_def)
    then show ?thesis using 1 d by simp
  next
    case 2
    then have "round_half_even x = ?f + 1" by (simp add: round_half_even_def Let_def)
    then show ?thesis using 2 d by simp
  next
    case 3
    then have "round_half_even x = ?f" by (simp add: round_half_even_def Let_def)
    then show ?thesis using 3 by simp
  next
    case 4
    then have "round_half_even x = ?f + 1" by (simp add: round_half_even_def Let_def)
    then show ?thesis using 4 by simp
  qed
qed

lemma round_half_even_minus: "round_half_even (- x) = - round_half_even x"
proof (rule round_half_even_unique)
  have "\<bar>- x - of_int (- round_half_even x)\<bar> = \<bar>x - of_int (round_half_even x)\<bar>"
    by simp
  then show "\<bar>- x - of_int (- round_half_even x)\<bar> < 1 / 2 \<or>
        (\<bar>- x - of_int (- round_half_even x)\<bar> = 1 / 2 \<and> even (- round_half_even x))"
    using round_half_even_close [of x] by simp
qed

lemma pow2_52: "pow2 (e + 52) = pow2 e * 2 ^ 52"
  by (simp add: pow2_add) (simp add: pow2_def)

lemma pow2_53: "pow2 (e + 53) = pow2 e * 2 ^ 53"
  by (simp add: pow2_add) (simp add: pow2_def)

lemma floor_log2_between:
  assumes "pow2 k \<le> y" and "y < pow2 (k + 1)"
  shows "\<lfloor>log 2 y\<rfloor> = k"
proof -
  have "0 < y" using assms(1) pow2_pos [of k] by linarith
  moreover have "2 powr (of_int k) \<le> y" using assms(1) by (simp add: pow2_powr)
  moreover have "y < 2 powr (of_int k + 1)" using assms(2) by (simp add: pow2_powr)
  ultimately show ?thesis by (simp add: floor_log_eq_powr_iff)
qed

lemma fl64_round:
  assumes "2 ^ 52 \<le> \<bar>x\<bar> / pow2 e" and "\<bar>x\<bar> / pow2 e < 2 ^ 53" and "- 1074 \<le> e"
  shows "fl64 x = of_int (round_half_even (x / pow2 e)) * pow2 e"
proof -
  have lo: "pow2 (e + 52) \<le> \<bar>x\<bar>"
    using assms(1) pow2_pos [of e] by (simp add: pow2_52 pos_le_divide_eq mult.commute)
  have hi: "\<bar>x\<bar> < pow2 (e + 52 + 1)"
    using assms(2) pow2_pos [of e] pow2_53 [of e]
    by (simp add: pos_divide_less_eq mult.commute add.assoc)
  have fl: "\<lfloor>log 2 \<bar>x\<bar>\<rfloor> = e + 52"
    using lo hi by (rule floor_log2_between)
  have "x \<noteq> 0" using lo pow2_pos [of "e + 52"] by auto
  then show ?thesis
    using assms(3) by (simp add: fl64_def Let_def fl max_def)
qed

lemma fl64_minus: "fl64 (- x) = - fl64 x"
  by (simp add: fl64_def Let_def round_half_even_minus)

lemma fl64_eval:
  assumes "2 ^ 52 \<le> \<bar>x\<bar> / pow2 e" and "\<bar>x\<bar> / pow2 e < 2 ^ 53" and "- 1074 \<le> e"
    and "\<bar>x / pow2 e - of_int n\<bar> < 1 / 2 \<or> (\<bar>x / pow2 e - of_int n\<bar> = 1 / 2 \<and> even n)"
  shows "fl64 x = of_int n * pow2 e"
  using fl64_round [OF assms(1-3)] round_half_even_unique [OF assms(4)] by simp

lemma round_half_even_nonneg: "0 \<le> y \<Longrightarrow> 0 \<le> round_half_even y"
  using round_half_even_close [of y] by linarith

lemma fl64_nonneg: "0 \<le> x \<Longrightarrow> 0 \<le> fl64 x"
  using pow2_pos
  by (simp add: fl64_def Let_def round_half_even_nonneg less_imp_le)

lemma fl64_zero: "fl64 0 = 0"
  by (simp add: fl64_def)

lemma fl64_error:
  assumes "pow2 (- 1022) \<le> \<bar>x\<bar>"
  shows "\<bar>fl64 x - x\<bar> \<le> \<bar>x\<bar> / 2 ^ 53"
proof -
  define k where "k = \<lfloor>log 2 \<bar>x\<bar>\<rfloor>"
  define e where "e = k - 52"
  have xpos: "0 < \<bar>x\<bar>" using assms pow2_pos [of "- 1022"] by linarith
  then have x0: "x \<noteq> 0" by auto
  have "2 powr (of_int k) \<le> \<bar>x\<bar> \<and> \<bar>x\<bar> < 2 powr (of_int k + 1)"
    using xpos floor_log_eq_powr_iff [of "\<bar>x\<bar>" 2 k] by (simp add: k_def)
  then have lo: "pow2 k \<le> \<bar>x\<bar>" and hi: "\<bar>x\<bar> < pow2 (k + 1)"
    by (simp_all add: pow2_powr)
  have "- 1022 \<le> k"
  proof (rule ccontr)
    assume "\<not> - 1022 \<le> k"
    then have "k + 1 \<le> - 1022" by simp
    then have "pow2 (k + 1) \<le> pow2 (- 1022)"
      by (simp add: pow2_powr)
    with hi assms show False by linarith
  qed
  then have emax: "max (k - 52) (- 1074) = e" by (simp add: e_def)
  have pe: "pow2 k = pow2 e * 2 ^ 52"
    using pow2_52 [of e] by (simp add: e_def)
  let ?n = "round_half_even (x / pow2 e)"
  have fx: "fl64 x = of_int ?n * pow2 e"
    using x0 emax by (simp add: fl64_def Let_def k_def)
  have close: "\<bar>x / pow2 e - of_int ?n\<bar> \<le> 1 / 2"
    using round_half_even_close [of "x / pow2 e"] by linarith
  have "fl64 x - x = (of_int ?n - x / pow2 e) * pow2 e"
    using pow2_pos [of e] by (simp add: fx field_simps)
  then have "\<bar>fl64 x - x\<bar> = \<bar>x / pow2 e - of_int ?n\<bar> * pow2 e"
    using pow2_pos [of e] by (simp add: abs_mult abs_minus_commute)
  also have "\<dots> \<le> (1 / 2) * pow2 e"
    using close pow2_pos [of e] by (intro mult_right_mono) simp_all
  also have "\<dots> = pow2 k / 2 ^ 53"
    by (simp add: pe)
  also have "\<dots> \<le> \<bar>x\<bar> / 2 ^ 53"
    using lo by (simp add: divide_right_mono)
  finally show ?thesis .
qed

lemma js_add_min_max: "js_add (min a b) (max a b) = js_add a b"
  by (simp add: js_add_def min_def max_def add.commute)

lemma js_sub_max_min: "js_sub (max a b) (min a b) = \<bar>js_sub a b\<bar>"
proof (cases "a \<le> b")
  case True
  then have "0 \<le> fl64 (b - a)" by (simp add: fl64_nonneg)
  moreover have "fl64 (a - b) = - fl64 (b - a)"
    using fl64_minus [of "b - a"] by simp
  ultimately show ?thesis using True by (simp add: js_sub_def min_def max_def)
next
  case False
  then have "0 \<le> fl64 (a - b)" by (simp add: fl64_nonneg)
  then show ?thesis using False by (simp add: js_sub_def min_def max_def)
qed

subsection \<open>Leg and viewport\<close>

lemma getMapBounds_resolved:
  assumes "getCurrentJourneyPath trips cursor = [(latA, lngA), (latB, lngB)]"
  shows "getMapBounds trips cursor =
           Inr \<lparr>center = (js_div (js_add latA latB) 2, js_div (js_add lngA lngB) 2),
                zoom = zoomFor (max \<bar>js_sub latA latB\<bar> \<bar>js_sub lngA lngB\<bar>)\<rparr>"
proof -
  have "getCurrentJourneyPath trips cursor \<noteq> []" using assms by simp
  then have "visibleTrips trips cursor \<noteq> []"
    using getCurrentJourneyPath_range visibleTrips_nonempty by blast
  then show ?thesis
    using assms
    by (simp add: getMapBounds_def Let_def js_index_def js_add_min_max js_sub_max_min)
qed

lemma getMapBounds_unresolved:
  assumes "getCurrentJourneyPath trips cursor = []"
  shows "getMapBounds trips cursor =
           (case visibleTrips trips cursor of
              [] \<Rightarrow> Inr \<lparr>center = (39.8283, - 98.5795), zoom = 4\<rparr>
            | firstTrip # _ \<Rightarrow>
                Inr \<lparr>center = coords (departureLocation firstTrip), zoom = 8\<rparr>)"
  using assms
  by (cases "visibleTrips trips cursor")
     (simp_all add: getMapBounds_def Let_def js_index_def coords_def)

lemma zoomFor_range: "3 \<le> zoomFor s \<and> zoomFor s \<le> 8"
  by (simp add: zoomFor_def)

subsection \<open>Roundings at the legs used below\<close>

lemma fl64_34_0522: "fl64 (34.0522) = 4792421100973300 / 2 ^ 47"
proof -
  have "fl64 (34.0522) = real_of_int 4792421100973300 * pow2 (- 47)"
    by (rule fl64_eval) (simp_all add: pow2_def)
  then show ?thesis by (simp add: pow2_def)
qed

lemma fl64_m118_2437: "fl64 (- 118.2437) = - (8320660675920449 / 2 ^ 46)"
proof -
  have "fl64 (- 118.2437) = real_of_int (- 8320660675920449) * pow2 (- 46)"
    by (rule fl64_eval) (simp_all add: pow2_def)
  then show ?thesis by (simp add: pow2_def)
qed

lemma fl64_29_7604: "fl64 (29.7604) = 8376807896899807 / 2 ^ 48"
proof -
  have "fl64 (29.7604) = real_of_int 8376807896899807 * pow2 (- 48)"
    by (rule fl64_eval) (simp_all add: pow2_def)
  then show ?thesis by (simp add: pow2_def)
qed

lemma fl64_m95_3698: "fl64 (- 95.3698) = - (6711053058474980 / 2 ^ 46)"
proof -
  have "fl64 (- 95.3698) = real_of_int (- 6711053058474980) * pow2 (- 46)"
    by (rule fl64_eval) (simp_all add: pow2_def)
  then show ?thesis by (simp add: pow2_def)
qed

lemma sample_sum_lat: "fl64 (4792421100973300 / 2 ^ 47 + 8376807896899807 / 2 ^ 48) = 8980825049423204 / 2 ^ 47"
proof -
  have "fl64 (4792421100973300 / 2 ^ 47 + 8376807896899807 / 2 ^ 48) = real_of_int 8980825049423204 * pow2 (- 47)"
    by (rule fl64_eval) (simp_all add: pow2_def)
  then show ?thesis by (simp add: pow2_def)
qed

lemma sample_half_lat: "fl64 (8980825049423204 / 2 ^ 47 / 2) = 8980825049423204 / 2 ^ 48"
proof -
  have "fl64 (8980825049423204 / 2 ^ 47 / 2) = real_of_int 8980825049423204 * pow2 (- 48)"
    by (rule fl64_eval) (simp_all add: pow2_def)
  then show ?thesis by (simp add: pow2_def)
qed

lemma sample_sum_lng: "fl64 (- (8320660675920449 / 2 ^ 46) + - (6711053058474980 / 2 ^ 46)) = - (7515856867197714 / 2 ^ 45)"
proof -
  have "fl64 (- (8320660675920449 / 2 ^ 46) + - (6711053058474980 / 2 ^ 46)) = real_of_int (- 7515856867197714) * pow2 (- 45)"
    by (rule fl64_eval) (simp_all add: pow2_def)
  then show ?thesis by (simp add: pow2_def)
qed

lemma sample_half_lng: "fl64 (- (7515856867197714 / 2 ^ 45) / 2) = - (7515856867197714 / 2 ^ 46)"
proof -
  have "fl64 (- (7515856867197714 / 2 ^ 45) / 2) = real_of_int (- 7515856867197714) * pow2 (- 46)"
    by (rule fl64_eval) (simp_all add: pow2_def)
  then show ?thesis by (simp add: pow2_def)
qed

lemma sample_diff_lat: "fl64 (4792421100973300 / 2 ^ 47 - 8376807896899807 / 2 ^ 48) = 4832137220187172 / 2 ^ 50"
proof -
  have "fl64 (4792421100973300 / 2 ^ 47 - 8376807896899807 / 2 ^ 48) = real_of_int 4832137220187172 * pow2 (- 50)"
    by (rule fl64_eval) (simp_all add: pow2_def)
  then show ?thesis by (simp add: pow2_def)
qed

lemma sample_diff_lng: "fl64 (- (8320660675920449 / 2 ^ 46) - - (6711053058474980 / 2 ^ 46)) = - (6438430469781876 / 2 ^ 48)"
proof -
  have "fl64 (- (8320660675920449 / 2 ^ 46) - - (6711053058474980 / 2 ^ 46)) = real_of_int (- 6438430469781876) * pow2 (- 48)"
    by (rule fl64_eval) (simp_all add: pow2_def)
  then show ?thesis by (simp add: pow2_def)
qed

lemma fl64_31_9063: "fl64 (31.9063) = 8980825049423204 / 2 ^ 48"
proof -
  have "fl64 (31.9063) = real_of_int 8980825049423204 * pow2 (- 48)"
    by (rule fl64_eval) (simp_all add: pow2_def)
  then show ?thesis by (simp add: pow2_def)
qed

lemma fl64_m106_80675: "fl64 (- 106.80675) = - (7515856867197714 / 2 ^ 46)"
proof -
  have "fl64 (- 106.80675) = real_of_int (- 7515856867197714) * pow2 (- 46)"
    by (rule fl64_eval) (simp_all add: pow2_def)
  then show ?thesis by (simp add: pow2_def)
qed

lemma fl64_2_4: "fl64 (2.4) = 5404319552844595 / 2 ^ 51"
proof -
  have "fl64 (2.4) = real_of_int 5404319552844595 * pow2 (- 51)"
    by (rule fl64_eval) (simp_all add: pow2_def)
  then show ?thesis by (simp add: pow2_def)
qed

lemma fl64_4_4: "fl64 (4.4) = 4953959590107546 / 2 ^ 50"
proof -
  have "fl64 (4.4) = real_of_int 4953959590107546 * pow2 (- 50)"
    by (rule fl64_eval) (simp_all add: pow2_def)
  then show ?thesis by (simp add: pow2_def)
qed

lemma near_sum: "fl64 (5404319552844595 / 2 ^ 51 + 4953959590107546 / 2 ^ 50) = 7656119366529844 / 2 ^ 50"
proof -
  have "fl64 (5404319552844595 / 2 ^ 51 + 4953959590107546 / 2 ^ 50) = real_of_int 7656119366529844 * pow2 (- 50)"
    by (rule fl64_eval) (simp_all add: pow2_def)
  then show ?thesis by (simp add: pow2_def)
qed

lemma near_half: "fl64 (7656119366529844 / 2 ^ 50 / 2) = 7656119366529844 / 2 ^ 51"
proof -
  have "fl64 (7656119366529844 / 2 ^ 50 / 2) = real_of_int 7656119366529844 * pow2 (- 51)"
    by (rule fl64_eval) (simp_all add: pow2_def)
  then show ?thesis by (simp add: pow2_def)
qed

lemma near_diff: "fl64 (5404319552844595 / 2 ^ 51 - 4953959590107546 / 2 ^ 50) = - (4503599627370497 / 2 ^ 51)"
proof -
  have "fl64 (5404319552844595 / 2 ^ 51 - 4953959590107546 / 2 ^ 50) = real_of_int (- 4503599627370497) * pow2 (- 51)"
    by (rule fl64_eval) (simp_all add: pow2_def)
  then show ?thesis by (simp add: pow2_def)
qed

lemma fl64_0_1: "fl64 (0.1) = 7205759403792794 / 2 ^ 56"
proof -
  have "fl64 (0.1) = real_of_int 7205759403792794 * pow2 (- 56)"
    by (rule fl64_eval) (simp_all add: pow2_def)
  then show ?thesis by (simp add: pow2_def)
qed

lemma fl64_50_1: "fl64 (50.1) = 7050948166601933 / 2 ^ 47"
proof -
  have "fl64 (50.1) = real_of_int 7050948166601933 * pow2 (- 47)"
    by (rule fl64_eval) (simp_all add: pow2_def)
  then show ?thesis by (simp add: pow2_def)
qed

lemma far_sum: "fl64 (7205759403792794 / 2 ^ 56 + 7050948166601933 / 2 ^ 47) = 7065021915437466 / 2 ^ 47"
proof -
  have "fl64 (7205759403792794 / 2 ^ 56 + 7050948166601933 / 2 ^ 47) = real_of_int 7065021915437466 * pow2 (- 47)"
    by (rule fl64_eval) (simp_all add: pow2_def)
  then show ?thesis by (simp add: pow2_def)
qed

lemma far_half: "fl64 (7065021915437466 / 2 ^ 47 / 2) = 7065021915437466 / 2 ^ 48"
proof -
  have "fl64 (7065021915437466 / 2 ^ 47 / 2) = real_of_int 7065021915437466 * pow2 (- 48)"
    by (rule fl64_eval) (simp_all add: pow2_def)
  then show ?thesis by (simp add: pow2_def)
qed

lemma far_diff: "fl64 (7205759403792794 / 2 ^ 56 - 7050948166601933 / 2 ^ 47) = - (7036874417766400 / 2 ^ 47)"
proof -
  have "fl64 (7205759403792794 / 2 ^ 56 - 7050948166601933 / 2 ^ 47) = real_of_int (- 7036874417766400) * pow2 (- 47)"
    by (rule fl64_eval) (simp_all add: pow2_def)
  then show ?thesis by (simp add: pow2_def)
qed

lemma legJourney_path:
  "getCurrentJourneyPath (map parsed (legJourney a b)) 0 =
     [(fl64 (fst a), fl64 (snd a)), (fl64 (fst b), fl64 (snd b))]"
  by (simp add: legJourney_def parsed_def parsedLocation_def getCurrentJourneyPath_def
        currentTrip_def js_index_def coords_def)

lemma js_zero: "js_add 0 0 = 0" "js_div 0 2 = 0" "js_sub 0 0 = 0"
  by (simp_all add: js_add_def js_div_def js_sub_def fl64_zero)

lemma near_path:
  "getCurrentJourneyPath (map parsed (legJourney (2.4, 0) (4.4, 0))) 0 =
     [(5404319552844595 / 2 ^ 51, 0), (4953959590107546 / 2 ^ 50, 0)]"
  using legJourney_path [of "(2.4, 0)" "(4.4, 0)"]
  by (simp only: fst_conv snd_conv fl64_2_4 fl64_4_4 fl64_zero)

lemma near_bounds:
  "getMapBounds (map parsed (legJourney (2.4, 0) (4.4, 0))) 0 =
     Inr \<lparr>center = (7656119366529844 / 2 ^ 51, 0), zoom = 7\<rparr>"
proof -
  have s: "js_add (5404319552844595 / 2 ^ 51) (4953959590107546 / 2 ^ 50) = 7656119366529844 / 2 ^ 50"
    by (simp only: js_add_def near_sum)
  have h: "js_div (7656119366529844 / 2 ^ 50) 2 = 7656119366529844 / 2 ^ 51"
    by (simp only: js_div_def near_half)
  have d: "js_sub (5404319552844595 / 2 ^ 51) (4953959590107546 / 2 ^ 50) = - (4503599627370497 / 2 ^ 51)"
    by (simp only: js_sub_def near_diff)
  have "getMapBounds (map parsed (legJourney (2.4, 0) (4.4, 0))) 0 =
      Inr \<lparr>center = (js_div (js_add (5404319552844595 / 2 ^ 51) (4953959590107546 / 2 ^ 50)) 2, js_div (js_add 0 0) 2),
           zoom = zoomFor (max \<bar>js_sub (5404319552844595 / 2 ^ 51) (4953959590107546 / 2 ^ 50)\<bar> \<bar>js_sub 0 0\<bar>)\<rparr>"
    using near_path by (rule getMapBounds_resolved)
  then have "getMapBounds (map parsed (legJourney (2.4, 0) (4.4, 0))) 0 =
      Inr \<lparr>center = (7656119366529844 / 2 ^ 51, 0), zoom = zoomFor (max \<bar>- (4503599627370497 / 2 ^ 51)\<bar> \<bar>0\<bar>)\<rparr>"
    by (simp only: s h d js_zero)
  then show ?thesis by (simp add: zoomFor_def)
qed

lemma far_path:
  "getCurrentJourneyPath (map parsed (legJourney (0.1, 0) (50.1, 0))) 0 =
     [(7205759403792794 / 2 ^ 56, 0), (7050948166601933 / 2 ^ 47, 0)]"
  using legJourney_path [of "(0.1, 0)" "(50.1, 0)"]
  by (simp only: fst_conv snd_conv fl64_0_1 fl64_50_1 fl64_zero)

lemma far_bounds:
  "getMapBounds (map parsed (legJourney (0.1, 0) (50.1, 0))) 0 =
     Inr \<lparr>center = (7065021915437466 / 2 ^ 48, 0), zoom = 4\<rparr>"
proof -
  have s: "js_add (7205759403792794 / 2 ^ 56) (7050948166601933 / 2 ^ 47) = 7065021915437466 / 2 ^ 47"
    by (simp only: js_add_def far_sum)
  have h: "js_div (7065021915437466 / 2 ^ 47) 2 = 7065021915437466 / 2 ^ 48"
    by (simp only: js_div_def far_half)
  have d: "js_sub (7205759403792794 / 2 ^ 56) (7050948166601933 / 2 ^ 47) = - (7036874417766400 / 2 ^ 47)"
    by (simp only: js_sub_def far_diff)
  have "getMapBounds (map parsed (legJourney (0.1, 0) (50.1, 0))) 0 =
      Inr \<lparr>center = (js_div (js_add (7205759403792794 / 2 ^ 56) (7050948166601933 / 2 ^ 47)) 2, js_div (js_add 0 0) 2),
           zoom = zoomFor (max \<bar>js_sub (7205759403792794 / 2 ^ 56) (7050948166601933 / 2 ^ 47)\<bar> \<bar>js_sub 0 0\<bar>)\<rparr>"
    using far_path by (rule getMapBounds_resolved)
  then have "getMapBounds (map parsed (legJourney (0.1, 0) (50.1, 0))) 0 =
      Inr \<lparr>center = (7065021915437466 / 2 ^ 48, 0), zoom = zoomFor (max \<bar>- (7036874417766400 / 2 ^ 47)\<bar> \<bar>0\<bar>)\<rparr>"
    by (simp only: s h d js_zero)
  then show ?thesis by (simp add: zoomFor_def)
qed

text \<open>
  C2, as the code does it. For an empty journey the viewport is the fixed default centre
  with the default zoom. When a leg is resolved, with coordinates that cannot overflow,
  the centre is the sum of the two latitudes, rounded to binary64, halved and rounded
  again, and the same for the longitudes; the spread is the larger of the two
  absolute differences, each difference rounded to binary64; and the zoom follows from
  that computed spread by the strict thresholds above 50 gives 3, above 20 gives 4, above
  10 gives 5, above 5 gives 6, above 2 gives 7, else 8, so that a computed spread that
  sits on a threshold takes the larger zoom. A rounding moves a value of magnitude
  \<open>2 ^ -1022\<close> or more by at most that magnitude divided by \<open>2 ^ 53\<close>.
\<close>

theorem getMapBounds_viewport:
  "getMapBounds [] cursor = Inr \<lparr>center = (39.8283, - 98.5795), zoom = 4\<rparr> \<and>
   (trips \<noteq> [] \<and> getCurrentJourneyPath trips cursor = [(latA, lngA), (latB, lngB)] \<and>
    no_overflow latA \<and> no_overflow lngA \<and> no_overflow latB \<and> no_overflow lngB \<longrightarrow>
      getMapBounds trips cursor =
        Inr \<lparr>center = (js_div (js_add latA latB) 2, js_div (js_add lngA lngB) 2),
             zoom = zoomFor (max \<bar>js_sub latA latB\<bar> \<bar>js_sub lngA lngB\<bar>)\<rparr>) \<and>
   js_add x y = fl64 (x + y) \<and> js_sub x y = fl64 (x - y) \<and> js_div x y = fl64 (x / y) \<and>
   (pow2 (- 1022) \<le> \<bar>x\<bar> \<longrightarrow> \<bar>fl64 x - x\<bar> \<le> \<bar>x\<bar> / 2 ^ 53) \<and>
   zoomFor spread =
     (if spread > 50 then 3 else if spread > 20 then 4 else if spread > 10 then 5
      else if spread > 5 then 6 else if spread > 2 then 7 else 8) \<and>
   zoomFor 50 = 4 \<and> zoomFor 20 = 5 \<and> zoomFor 10 = 6 \<and> zoomFor 5 = 7 \<and> zoomFor 2 = 8"
proof -
  have empty: "getMapBounds [] cursor = Inr \<lparr>center = (39.8283, - 98.5795), zoom = 4\<rparr>"
    by (simp add: getMapBounds_def visibleTrips_Nil)
  have ops: "js_add x y = fl64 (x + y) \<and> js_sub x y = fl64 (x - y) \<and> js_div x y = fl64 (x / y)"
    by (simp add: js_add_def js_sub_def js_div_def)
  have steps: "zoomFor spread =
     (if spread > 50 then 3 else if spread > 20 then 4 else if spread > 10 then 5
      else if spread > 5 then 6 else if spread > 2 then 7 else 8)"
    by (simp add: zoomFor_def)
  have bounds: "zoomFor 50 = 4 \<and> zoomFor 20 = 5 \<and> zoomFor 10 = 6 \<and> zoomFor 5 = 7 \<and> zoomFor 2 = 8"
    by (simp add: zoomFor_def)
  show ?thesis
    using empty ops steps bounds fl64_error [of x]
      getMapBounds_resolved [of trips cursor latA lngA latB lngB]
    by blast
qed

text \<open>
  C2, witness: the leg from (2.4, 0) to (4.4, 0), as the program holds it. The difference
  of the two latitudes is 2.0000000000000004, above the threshold 2, so the zoom is 7,
  and the centre has the latitude 3.4000000000000004.
\<close>

theorem getMapBounds_viewport_witness:
  "map parsed (legJourney (2.4, 0) (4.4, 0)) \<noteq> [] \<and>
   getCurrentJourneyPath (map parsed (legJourney (2.4, 0) (4.4, 0))) 0 =
     [(5404319552844595 / 2 ^ 51, 0), (4953959590107546 / 2 ^ 50, 0)] \<and>
   no_overflow (5404319552844595 / 2 ^ 51) \<and> no_overflow 0 \<and> no_overflow (4953959590107546 / 2 ^ 50) \<and>
   getMapBounds (map parsed (legJourney (2.4, 0) (4.4, 0))) 0 =
     Inr \<lparr>center = (js_div (js_add (5404319552844595 / 2 ^ 51) (4953959590107546 / 2 ^ 50)) 2, js_div (js_add 0 0) 2),
          zoom = zoomFor (max \<bar>js_sub (5404319552844595 / 2 ^ 51) (4953959590107546 / 2 ^ 50)\<bar> \<bar>js_sub 0 0\<bar>)\<rparr> \<and>
   getMapBounds (map parsed (legJourney (2.4, 0) (4.4, 0))) 0 =
     Inr \<lparr>center = (7656119366529844 / 2 ^ 51, 0), zoom = 7\<rparr> \<and>
   pow2 (- 1022) \<le> \<bar>2.4\<bar> \<and> \<bar>fl64 2.4 - 2.4\<bar> \<le> \<bar>2.4\<bar> / 2 ^ 53"
proof -
  have ne: "map parsed (legJourney (2.4, 0) (4.4, 0)) \<noteq> []"
    by (simp add: legJourney_def)
  have n1: "no_overflow (5404319552844595 / 2 ^ 51)" and n2: "no_overflow 0"
    and n3: "no_overflow (4953959590107546 / 2 ^ 50)"
    by (simp_all add: no_overflow_def)
  have small: "pow2 (- 1022) \<le> \<bar>2.4\<bar>"
    by (simp add: pow2_def)
  note inst = getMapBounds_viewport
    [where trips = "map parsed (legJourney (2.4, 0) (4.4, 0))" and cursor = 0
       and latA = "5404319552844595 / 2 ^ 51" and lngA = 0 and latB = "4953959590107546 / 2 ^ 50" and lngB = 0 and x = "2.4"]
  have a: "getMapBounds (map parsed (legJourney (2.4, 0) (4.4, 0))) 0 =
     Inr \<lparr>center = (js_div (js_add (5404319552844595 / 2 ^ 51) (4953959590107546 / 2 ^ 50)) 2, js_div (js_add 0 0) 2),
          zoom = zoomFor (max \<bar>js_sub (5404319552844595 / 2 ^ 51) (4953959590107546 / 2 ^ 50)\<bar> \<bar>js_sub 0 0\<bar>)\<rparr>"
    using inst ne near_path n1 n2 n3 by blast
  have b: "\<bar>fl64 2.4 - 2.4\<bar> \<le> \<bar>2.4\<bar> / 2 ^ 53"
    using inst small by blast
  show ?thesis using ne near_path n1 n2 n3 a near_bounds small b by blast
qed

text \<open>
  C2, as the specification states it, fails at the leg from (0.1, 0) to (50.1, 0), as the
  program holds it. The exact difference of the two latitudes is above 50, which the
  stated thresholds map to zoom 3, but the subtraction of the source rounds it to 50 and
  the source returns zoom 4. The latitude of the centre that the source returns is not the
  exact mean of the two latitudes either.
\<close>

theorem rounded_spread_counterexample:
  "getCurrentJourneyPath (map parsed (legJourney (0.1, 0) (50.1, 0))) 0 =
     [(7205759403792794 / 2 ^ 56, 0), (7050948166601933 / 2 ^ 47, 0)] \<and>
   getMapBounds (map parsed (legJourney (0.1, 0) (50.1, 0))) 0 =
     Inr \<lparr>center = (7065021915437466 / 2 ^ 48, 0), zoom = 4\<rparr> \<and>
   (50::real) < \<bar>7205759403792794 / 2 ^ 56 - 7050948166601933 / 2 ^ 47\<bar> \<and>
   zoomFor (max \<bar>7205759403792794 / 2 ^ 56 - 7050948166601933 / 2 ^ 47\<bar> \<bar>0 - 0\<bar>) = 3 \<and>
   (7205759403792794 / 2 ^ 56 + 7050948166601933 / 2 ^ 47) / 2 \<noteq> (7065021915437466 / 2 ^ 48 :: real)"
proof -
  have gap: "(50::real) < \<bar>7205759403792794 / 2 ^ 56 - 7050948166601933 / 2 ^ 47\<bar>"
    by simp
  have z: "zoomFor (max \<bar>7205759403792794 / 2 ^ 56 - 7050948166601933 / 2 ^ 47\<bar> \<bar>0 - 0\<bar>) = 3"
    by (simp add: zoomFor_def)
  have m: "(7205759403792794 / 2 ^ 56 + 7050948166601933 / 2 ^ 47) / 2 \<noteq> (7065021915437466 / 2 ^ 48 :: real)"
    by simp
  show ?thesis using far_path far_bounds gap z m by blast
qed

text \<open>
  C4. The zoom never grows with the spread: of two non-negative spreads the larger one
  gets a zoom that is at most the zoom of the smaller one. The spreads 0, 3, 6, 15, 25 and
  60 get the zooms 8, 7, 6, 5, 4 and 3.
\<close>

theorem zoomFor_monotone:
  "(0 \<le> s1 \<and> s1 < s2 \<longrightarrow> zoomFor s1 \<ge> zoomFor s2) \<and>
   zoomFor 0 = 8 \<and> zoomFor 3 = 7 \<and> zoomFor 6 = 6 \<and> zoomFor 15 = 5 \<and>
   zoomFor 25 = 4 \<and> zoomFor 60 = 3"
  by (simp add: zoomFor_def)

theorem zoomFor_monotone_witness:
  "(0::real) \<le> 3 \<and> (3::real) < 25 \<and> zoomFor 3 \<ge> zoomFor 25"
  using zoomFor_monotone [of 3 25] by simp

text \<open>
  C10. For every journey and every cursor the viewport computation returns a viewport
  whose zoom is an integer from 3 to 8: the default for the empty journey is 4, the
  fallback without a leg is 8, and the thresholds on the spread give 3, 4, 5, 6, 7 or 8.
\<close>

theorem getMapBounds_zoom_range:
  "(\<exists>b. getMapBounds trips cursor = Inr b \<and> 3 \<le> zoom b \<and> zoom b \<le> 8) \<and>
   getMapBounds [] cursor = Inr \<lparr>center = (39.8283, - 98.5795), zoom = 4\<rparr> \<and>
   (getCurrentJourneyPath trips cursor = [] \<and> visibleTrips trips cursor \<noteq> [] \<longrightarrow>
      (\<exists>c. getMapBounds trips cursor = Inr \<lparr>center = c, zoom = 8\<rparr>)) \<and>
   zoomFor spread \<in> {3, 4, 5, 6, 7, 8}"
proof -
  have total: "\<exists>b. getMapBounds trips cursor = Inr b \<and> 3 \<le> zoom b \<and> zoom b \<le> 8"
  proof (cases "getCurrentJourneyPath trips cursor")
    case Nil
    then show ?thesis
      by (cases "visibleTrips trips cursor") (simp_all add: getMapBounds_unresolved)
  next
    case (Cons a rest)
    then have "length (getCurrentJourneyPath trips cursor) = 2"
      using getCurrentJourneyPath_length [of trips cursor] by simp
    with Cons obtain b where "getCurrentJourneyPath trips cursor = [a, b]"
      by (cases rest) auto
    then have "getMapBounds trips cursor =
        Inr \<lparr>center = (js_div (js_add (fst a) (fst b)) 2, js_div (js_add (snd a) (snd b)) 2),
             zoom = zoomFor (max \<bar>js_sub (fst a) (fst b)\<bar> \<bar>js_sub (snd a) (snd b)\<bar>)\<rparr>"
      using getMapBounds_resolved [of trips cursor "fst a" "snd a" "fst b" "snd b"] by simp
    then show ?thesis using zoomFor_range by simp
  qed
  have dflt: "getMapBounds [] cursor = Inr \<lparr>center = (39.8283, - 98.5795), zoom = 4\<rparr>"
    by (simp add: getMapBounds_def visibleTrips_Nil)
  have fallback: "\<exists>c. getMapBounds trips cursor = Inr \<lparr>center = c, zoom = 8\<rparr>"
    if "getCurrentJourneyPath trips cursor = []" and "visibleTrips trips cursor \<noteq> []"
    using that by (cases "visibleTrips trips cursor") (simp_all add: getMapBounds_unresolved)
  have vals: "zoomFor spread \<in> {3, 4, 5, 6, 7, 8}"
    by (simp add: zoomFor_def)
  show ?thesis using total dflt fallback vals by blast
qed

theorem getMapBounds_zoom_range_witness:
  "getCurrentJourneyPath sampleTrips 5 = [] \<and> visibleTrips sampleTrips 5 \<noteq> [] \<and>
   getMapBounds sampleTrips 5 = Inr \<lparr>center = (34.0522, - 118.2437), zoom = 8\<rparr>"
proof -
  have p: "getCurrentJourneyPath sampleTrips 5 = []"
    by (simp add: getCurrentJourneyPath_def currentTrip_def js_index_def sampleTrips_def)
  have v: "visibleTrips sampleTrips 5 \<noteq> []"
    by (simp add: visibleTrips_def js_slice0_def sampleTrips_def)
  from getMapBounds_zoom_range [of sampleTrips 5] p v
  obtain c where "getMapBounds sampleTrips 5 = Inr \<lparr>center = c, zoom = 8\<rparr>"
    by blast
  moreover have "center (projr (getMapBounds sampleTrips 5)) = (34.0522, - 118.2437)"
    by (simp add: getMapBounds_def getCurrentJourneyPath_def currentTrip_def
          visibleTrips_def js_slice0_def js_index_def sampleTrips_def losAngeles_def)
  ultimately have "getMapBounds sampleTrips 5 =
      Inr \<lparr>center = (34.0522, - 118.2437), zoom = 8\<rparr>"
    by simp
  with p v show ?thesis by blast
qed

lemma sample_parsed_path:
  "getCurrentJourneyPath (map parsed sampleTrips) 1 =
     [(fl64 34.0522, fl64 (- 118.2437)), (fl64 29.7604, fl64 (- 95.3698))]"
proof -
  have "getCurrentJourneyPath (map parsed sampleTrips) 1 =
     [(fl64 (latitude losAngeles), fl64 (longitude losAngeles)),
      (fl64 (latitude houston), fl64 (longitude houston))]"
    by (simp add: getCurrentJourneyPath_def currentTrip_def visibleTrips_def js_slice0_def
          js_index_def sampleTrips_def parsed_def parsedLocation_def coords_def)
  moreover have "latitude losAngeles = 34.0522" and "longitude losAngeles = - 118.2437"
    by (simp_all add: losAngeles_def)
  moreover have "latitude houston = 29.7604" and "longitude houston = - 95.3698"
    by (simp_all add: houston_def)
  ultimately show ?thesis by (simp only:)
qed

lemma sample_parsed_bounds:
  "getMapBounds (map parsed sampleTrips) 1 =
     Inr \<lparr>center = (8980825049423204 / 2 ^ 48, - (7515856867197714 / 2 ^ 46)),
          zoom = zoomFor (max \<bar>4832137220187172 / 2 ^ 50\<bar> \<bar>- (6438430469781876 / 2 ^ 48)\<bar>)\<rparr>"
proof -
  have p: "getCurrentJourneyPath (map parsed sampleTrips) 1 =
     [(4792421100973300 / 2 ^ 47, - (8320660675920449 / 2 ^ 46)), (8376807896899807 / 2 ^ 48, - (6711053058474980 / 2 ^ 46))]"
    using sample_parsed_path
    by (simp only: fl64_34_0522 fl64_m118_2437 fl64_29_7604 fl64_m95_3698)
  have s1: "js_add (4792421100973300 / 2 ^ 47) (8376807896899807 / 2 ^ 48) = 8980825049423204 / 2 ^ 47"
    by (simp only: js_add_def sample_sum_lat)
  have h1: "js_div (8980825049423204 / 2 ^ 47) 2 = 8980825049423204 / 2 ^ 48"
    by (simp only: js_div_def sample_half_lat)
  have s2: "js_add (- (8320660675920449 / 2 ^ 46)) (- (6711053058474980 / 2 ^ 46)) = - (7515856867197714 / 2 ^ 45)"
    by (simp only: js_add_def sample_sum_lng)
  have h2: "js_div (- (7515856867197714 / 2 ^ 45)) 2 = - (7515856867197714 / 2 ^ 46)"
    by (simp only: js_div_def sample_half_lng)
  have d1: "js_sub (4792421100973300 / 2 ^ 47) (8376807896899807 / 2 ^ 48) = 4832137220187172 / 2 ^ 50"
    by (simp only: js_sub_def sample_diff_lat)
  have d2: "js_sub (- (8320660675920449 / 2 ^ 46)) (- (6711053058474980 / 2 ^ 46)) = - (6438430469781876 / 2 ^ 48)"
    by (simp only: js_sub_def sample_diff_lng)
  have "getMapBounds (map parsed sampleTrips) 1 =
      Inr \<lparr>center = (js_div (js_add (4792421100973300 / 2 ^ 47) (8376807896899807 / 2 ^ 48)) 2,
                     js_div (js_add (- (8320660675920449 / 2 ^ 46)) (- (6711053058474980 / 2 ^ 46))) 2),
           zoom = zoomFor (max \<bar>js_sub (4792421100973300 / 2 ^ 47) (8376807896899807 / 2 ^ 48)\<bar>
                               \<bar>js_sub (- (8320660675920449 / 2 ^ 46)) (- (6711053058474980 / 2 ^ 46))\<bar>)\<rparr>"
    using p by (rule getMapBounds_resolved)
  then show ?thesis
    by (simp only: s1 h1 s2 h2 d1 d2)
qed

text \<open>
  C5, as the code computes it. For the sample journey (a round trip Los Angeles to Las
  Vegas, then a one-way trip Los Angeles to Houston) and cursor 1 the leg starts at Los
  Angeles, the departure of the round trip, and ends at Houston. On the journey as the
  program holds it, the centre of the viewport is the pair of binary64 values that the
  literals 31.9063 and -106.80675 denote, each less than \<open>10 ^ -13\<close> away from its
  literal; the computed differences are 4.2917999999999985 in latitude and
  22.873900000000006 in longitude, the larger one is the spread, and the zoom is 4. On
  the decimal literals the differences are 4.2918 and 22.8739.
\<close>

theorem sample_leg_and_viewport:
  "getCurrentJourneyPath sampleTrips 1 = [coords losAngeles, coords houston] \<and>
   coords losAngeles = (34.0522, - 118.2437) \<and>
   coords houston = (29.7604, - 95.3698) \<and>
   type_trip (sampleTrips ! 0) = ROUND_TRIP \<and>
   coords (departureLocation (sampleTrips ! 0)) = coords losAngeles \<and>
   getCurrentJourneyPath (map parsed sampleTrips) 1 =
     [(fl64 34.0522, fl64 (- 118.2437)), (fl64 29.7604, fl64 (- 95.3698))] \<and>
   getMapBounds (map parsed sampleTrips) 1 =
     Inr \<lparr>center = (fl64 31.9063, fl64 (- 106.80675)), zoom = 4\<rparr> \<and>
   \<bar>fl64 31.9063 - 31.9063\<bar> < 1 / 10 ^ 13 \<and>
   \<bar>fl64 (- 106.80675) - (- 106.80675)\<bar> < 1 / 10 ^ 13 \<and>
   js_sub (fl64 34.0522) (fl64 29.7604) = 4832137220187172 / 2 ^ 50 \<and>
   js_sub (fl64 (- 118.2437)) (fl64 (- 95.3698)) = - (6438430469781876 / 2 ^ 48) \<and>
   \<bar>4832137220187172 / 2 ^ 50 - 4.2918\<bar> < (1 / 10 ^ 13 :: real) \<and>
   \<bar>- (6438430469781876 / 2 ^ 48) + 22.8739\<bar> < (1 / 10 ^ 13 :: real) \<and>
   max \<bar>4832137220187172 / 2 ^ 50\<bar> \<bar>- (6438430469781876 / 2 ^ 48)\<bar> = (6438430469781876 / 2 ^ 48 :: real) \<and>
   zoomFor (6438430469781876 / 2 ^ 48) = 4 \<and>
   \<bar>latitude losAngeles - latitude houston\<bar> = 4.2918 \<and>
   \<bar>longitude losAngeles - longitude houston\<bar> = 22.8739 \<and>
   max \<bar>latitude losAngeles - latitude houston\<bar>
       \<bar>longitude losAngeles - longitude houston\<bar> = 22.8739 \<and>
   zoomFor 22.8739 = 4"
proof -
  have leg: "getCurrentJourneyPath sampleTrips 1 = [coords losAngeles, coords houston]"
    by (simp add: getCurrentJourneyPath_def currentTrip_def visibleTrips_def js_slice0_def
          js_index_def sampleTrips_def)
  have la: "coords losAngeles = (34.0522, - 118.2437)"
    by (simp add: coords_def losAngeles_def)
  have ho: "coords houston = (29.7604, - 95.3698)"
    by (simp add: coords_def houston_def)
  have rt: "type_trip (sampleTrips ! 0) = ROUND_TRIP \<and>
            coords (departureLocation (sampleTrips ! 0)) = coords losAngeles"
    by (simp add: sampleTrips_def)
  have z: "zoomFor (max \<bar>4832137220187172 / 2 ^ 50\<bar> \<bar>- (6438430469781876 / 2 ^ 48)\<bar>) = 4"
    by (simp add: zoomFor_def)
  have vp: "getMapBounds (map parsed sampleTrips) 1 =
      Inr \<lparr>center = (fl64 31.9063, fl64 (- 106.80675)), zoom = 4\<rparr>"
    using sample_parsed_bounds by (simp only: z fl64_31_9063 fl64_m106_80675)
  have e1: "\<bar>fl64 31.9063 - 31.9063\<bar> < 1 / 10 ^ 13"
    by (simp only: fl64_31_9063) simp
  have e2: "\<bar>fl64 (- 106.80675) - (- 106.80675)\<bar> < 1 / 10 ^ 13"
    by (simp only: fl64_m106_80675) simp
  have j1: "js_sub (fl64 34.0522) (fl64 29.7604) = 4832137220187172 / 2 ^ 50"
    by (simp only: fl64_34_0522 fl64_29_7604 js_sub_def sample_diff_lat)
  have j2: "js_sub (fl64 (- 118.2437)) (fl64 (- 95.3698)) = - (6438430469781876 / 2 ^ 48)"
    by (simp only: fl64_m118_2437 fl64_m95_3698 js_sub_def sample_diff_lng)
  have k1: "\<bar>4832137220187172 / 2 ^ 50 - 4.2918\<bar> < (1 / 10 ^ 13 :: real)"
    by simp
  have k2: "\<bar>- (6438430469781876 / 2 ^ 48) + 22.8739\<bar> < (1 / 10 ^ 13 :: real)"
    by simp
  have sp: "max \<bar>4832137220187172 / 2 ^ 50\<bar> \<bar>- (6438430469781876 / 2 ^ 48)\<bar> = (6438430469781876 / 2 ^ 48 :: real)"
    by simp
  have zz: "zoomFor (6438430469781876 / 2 ^ 48) = 4"
    by (simp add: zoomFor_def)
  have diffs: "\<bar>latitude losAngeles - latitude houston\<bar> = 4.2918 \<and>
               \<bar>longitude losAngeles - longitude houston\<bar> = 22.8739"
    by (simp add: losAngeles_def houston_def)
  then have spread: "max \<bar>latitude losAngeles - latitude houston\<bar>
                         \<bar>longitude losAngeles - longitude houston\<bar> = 22.8739"
    by simp
  have zd: "zoomFor 22.8739 = 4" by (simp add: zoomFor_def)
  show ?thesis
    using leg la ho rt sample_parsed_path vp e1 e2 j1 j2 k1 k2 sp zz diffs spread zd
    by blast
qed

text \<open>
  C5, as the specification states it, fails on the centre: the centre that the code
  computes, (31.9063, -106.80675) up to rounding, lies more than 0.48 degrees of latitude
  and more than 0.15 degrees of longitude away from the stated (32.39, -106.96).
\<close>

theorem sample_midpoint_counterexample:
  "getMapBounds (map parsed sampleTrips) 1 =
     Inr \<lparr>center = (8980825049423204 / 2 ^ 48, - (7515856867197714 / 2 ^ 46)), zoom = 4\<rparr> \<and>
   (0.48 :: real) < \<bar>8980825049423204 / 2 ^ 48 - 32.39\<bar> \<and>
   (0.15 :: real) < \<bar>- (7515856867197714 / 2 ^ 46) - (- 106.96)\<bar> \<and>
   getMapBounds (map parsed sampleTrips) 1 \<noteq> Inr \<lparr>center = (32.39, - 106.96), zoom = 4\<rparr>"
proof -
  have z: "zoomFor (max \<bar>4832137220187172 / 2 ^ 50\<bar> \<bar>- (6438430469781876 / 2 ^ 48)\<bar>) = 4"
    by (simp add: zoomFor_def)
  have vp: "getMapBounds (map parsed sampleTrips) 1 =
     Inr \<lparr>center = (8980825049423204 / 2 ^ 48, - (7515856867197714 / 2 ^ 46)), zoom = 4\<rparr>"
    using sample_parsed_bounds by (simp only: z)
  have d1: "(0.48 :: real) < \<bar>8980825049423204 / 2 ^ 48 - 32.39\<bar>" by simp
  have d2: "(0.15 :: real) < \<bar>- (7515856867197714 / 2 ^ 46) - (- 106.96)\<bar>" by simp
  have "getMapBounds (map parsed sampleTrips) 1 \<noteq> Inr \<lparr>center = (32.39, - 106.96), zoom = 4\<rparr>"
    by (simp add: vp)
  with vp d1 d2 show ?thesis by blast
qed

section \<open>Properties of the animation driver\<close>

lemmas world_defs = journeyEffect_def clearAnimatedJourney_def addTo_def animate_def
  hideMarker_def cleanup_def hasLayer_def removeLayer_def setLatLngs_def run_at_def
  fire_def fires_def rerender_def progressAt_def interpolateCoords_def

lemmas sample_defs = getCurrentJourneyPath_def currentTrip_def visibleTrips_def
  js_slice0_def js_index_def sampleTrips_def coords_def losAngeles_def lasVegas_def
  houston_def emptyMap_def getTravelerColor_def

lemma keeps_refl: "keeps w w"
  by (simp add: keeps_def)

lemma keeps_trans: "keeps a b \<Longrightarrow> keeps b c \<Longrightarrow> keeps a c"
  by (auto simp: keeps_def)

lemma map_update_same: "f v = f (xs ! i) \<Longrightarrow> map f (xs[i := v]) = map f xs"
  by (cases "i < length xs") (simp_all add: map_update list_update_same_conv list_update_beyond)

lemma setLatLngs_fields:
  "onMap (setLatLngs l pts w) = onMap w"
  "runs (setLatLngs l pts w) = runs w"
  "pending (setLatLngs l pts w) = pending w"
  "mapLoaded (setLatLngs l pts w) = mapLoaded w"
  "length (objs (setLatLngs l pts w)) = length (objs w)"
  "map rotation (objs (setLatLngs l pts w)) = map rotation (objs w)"
  by (simp_all add: setLatLngs_def map_update_same)

lemma setLatLngs_at:
  "l < length (objs w) \<Longrightarrow> latlngs (objs (setLatLngs l pts w) ! l) = pts"
  by (simp add: setLatLngs_def)

lemma setLatLngs_other:
  "k \<noteq> l \<Longrightarrow> objs (setLatLngs l pts w) ! k = objs w ! k"
  by (simp add: setLatLngs_def)

lemma keeps_animate: "keeps w (animate w r now)"
  by (simp add: keeps_def animate_def run_at_def Let_def setLatLngs_fields map_update_same)

lemma keeps_animateHook: "keeps w (animateHook w r now)"
  by (simp add: keeps_def animateHook_def run_at_def Let_def setLatLngs_fields map_update_same)

lemma keeps_hideMarker: "keeps w (hideMarker w r)"
  by (auto simp: keeps_def hideMarker_def run_at_def removeLayer_def)

lemma keeps_hideMarkerHook: "keeps w (hideMarkerHook w r)"
  by (auto simp: keeps_def hideMarkerHook_def run_at_def removeLayer_def)

lemma keeps_run_callback: "keeps w (run_callback w cb now)"
  by (cases cb) (simp_all add: keeps_animate keeps_animateHook keeps_hideMarker keeps_hideMarkerHook)

lemma keeps_fire: "keeps w (fire w ev)"
proof (cases "fst ev \<in> set (pending w)")
  case True
  have "keeps w (w\<lparr>pending := remove1 (fst ev) (pending w)\<rparr>)"
    by (simp add: keeps_def)
  then show ?thesis
    using True keeps_run_callback keeps_trans by (fastforce simp: fire_def)
next
  case False
  then show ?thesis by (simp add: fire_def keeps_refl)
qed

lemma keeps_fires: "keeps w (fires w evs)"
  unfolding fires_def
proof (induction evs arbitrary: w)
  case Nil
  show ?case by (simp add: keeps_refl)
next
  case (Cons ev evs)
  have "keeps w (fire w ev)" by (rule keeps_fire)
  moreover have "keeps (fire w ev) (foldl fire (fire w ev) evs)" by (rule Cons.IH)
  ultimately show ?case by (simp add: keeps_trans [of w "fire w ev"])
qed

lemma cleanup_fields:
  "pending (cleanup w r) = pending w"
  "runs (cleanup w r) = runs w"
  "objs (cleanup w r) = objs w"
  "mapLoaded (cleanup w r) = mapLoaded w"
  by (simp_all add: cleanup_def run_at_def removeLayer_def Let_def)

lemma cleanup_onMap:
  "r < length (runs w) \<Longrightarrow>
   onMap (cleanup w r) = removeAll (marker (runs w ! r)) (removeAll (polyline (runs w ! r)) (onMap w))"
  by (simp add: cleanup_def run_at_def removeLayer_def hasLayer_def Let_def)

lemma journeyEffect_onMap:
  "set (onMap (fst (journeyEffect w trips idx now))) \<subseteq>
     set (onMap w) \<union> {length (objs w), Suc (length (objs w))}"
  by (auto simp: journeyEffect_def clearAnimatedJourney_def addTo_def Let_def split: option.split)

lemma journeyEffect_pending:
  "\<exists>new. pending (fst (journeyEffect w trips idx now)) = pending w @ new"
  by (simp add: journeyEffect_def clearAnimatedJourney_def addTo_def Let_def split: option.split)

lemma animate_other:
  "k \<noteq> polyline (runs w ! r) \<Longrightarrow> k \<noteq> marker (runs w ! r) \<Longrightarrow>
   objs (animate w r now) ! k = objs w ! k"
  by (simp add: animate_def run_at_def Let_def setLatLngs_other setLatLngs_fields)

lemma rerender_onMap_old:
  assumes "r < length (runs w)" and "l < length (objs w)"
    and "l = polyline (runs w ! r) \<or> l = marker (runs w ! r)"
  shows "l \<notin> set (onMap (fst (rerender w (Some r) trips idx now)))"
proof -
  have "l \<notin> set (onMap (cleanup w r))"
    using assms by (auto simp: cleanup_onMap)
  moreover have "l \<notin> {length (objs (cleanup w r)), Suc (length (objs (cleanup w r)))}"
    using assms by (simp add: cleanup_fields)
  ultimately show ?thesis
    using journeyEffect_onMap [of "cleanup w r" trips idx now]
    by (auto simp: rerender_def)
qed

lemma midFlight_eval:
  "runs midFlight = [\<lparr>startCoords = (34.0522, - 118.2437), endCoords = (36.1699, - 115.1398),
       startTime = 0, animationProgress = 1 / 25, polyline = 0, marker = 1\<rparr>]"
  "length (objs midFlight) = 2"
  "onMap midFlight = [0, 1]"
  "pending midFlight = [Frame (Animate 0)]"
  by (simp_all add: midFlight_def world_defs sample_defs Let_def)

lemma nextLeg_eval:
  "pending nextLeg = [Frame (Animate 0), Timeout 100 (Animate 1)]"
  "onMap nextLeg = [2, 3]"
  "latlngs (objs nextLeg ! 0) = [(34.0522, - 118.2437), (34.136908, - 118.119544)]"
  by (simp_all add: nextLeg_def midFlight_def world_defs sample_defs Let_def)

text \<open>
  C3, as the code does it. When the effect runs again for a new leg while the run \<open>r\<close> of
  the previous leg is still animating or settling, the clean-up removes the polyline and
  the marker of \<open>r\<close> from the map before the new animation is set up, and no callback that
  fires afterwards, in any order, puts them back. The clean-up cancels nothing: every
  callback that was pending stays pending. A frame callback of \<open>r\<close> that runs later
  changes no layer other than the two of \<open>r\<close>.
\<close>

theorem previous_leg_removed:
  assumes "r < length (runs w)"
    and "polyline (runs w ! r) < length (objs w)"
    and "marker (runs w ! r) < length (objs w)"
  shows "pending (cleanup w r) = pending w \<and>
         set (pending w) \<subseteq> set (pending (fst (rerender w (Some r) trips idx now))) \<and>
         polyline (runs w ! r) \<notin>
           set (onMap (fires (fst (rerender w (Some r) trips idx now)) evs)) \<and>
         marker (runs w ! r) \<notin>
           set (onMap (fires (fst (rerender w (Some r) trips idx now)) evs)) \<and>
         (k \<noteq> polyline (runs w ! r) \<and> k \<noteq> marker (runs w ! r) \<longrightarrow>
            objs (animate w r t) ! k = objs w ! k)"
proof -
  let ?w' = "fst (rerender w (Some r) trips idx now)"
  have kept: "pending (cleanup w r) = pending w"
    by (simp add: cleanup_fields)
  obtain new where "pending ?w' = pending (cleanup w r) @ new"
    using journeyEffect_pending [of "cleanup w r" trips idx now]
    by (auto simp: rerender_def)
  then have still: "set (pending w) \<subseteq> set (pending ?w')"
    by (simp add: kept)
  have sub: "set (onMap (fires ?w' evs)) \<subseteq> set (onMap ?w')"
    using keeps_fires [of ?w' evs] by (simp add: keeps_def)
  have "polyline (runs w ! r) \<notin> set (onMap ?w')"
    using assms by (intro rerender_onMap_old) simp_all
  moreover have "marker (runs w ! r) \<notin> set (onMap ?w')"
    using assms by (intro rerender_onMap_old) simp_all
  ultimately show ?thesis using kept still sub animate_other [of k w r t] by blast
qed

text \<open>
  C3, witness: the first leg of the sample journey in flight, the second leg started at
  time 200, and the frame callback of the first leg fired at time 300.
\<close>

theorem previous_leg_removed_witness:
  "0 < length (runs midFlight) \<and>
   polyline (runs midFlight ! 0) < length (objs midFlight) \<and>
   marker (runs midFlight ! 0) < length (objs midFlight) \<and>
   pending (cleanup midFlight 0) = pending midFlight \<and>
   set (pending midFlight) \<subseteq> set (pending nextLeg) \<and>
   polyline (runs midFlight ! 0) \<notin> set (onMap (fires nextLeg [(Frame (Animate 0), 300)])) \<and>
   marker (runs midFlight ! 0) \<notin> set (onMap (fires nextLeg [(Frame (Animate 0), 300)]))"
proof -
  have h1: "0 < length (runs midFlight)" by (simp add: midFlight_eval)
  have h2: "polyline (runs midFlight ! 0) < length (objs midFlight)"
    by (simp add: midFlight_eval)
  have h3: "marker (runs midFlight ! 0) < length (objs midFlight)"
    by (simp add: midFlight_eval)
  show ?thesis
    using previous_leg_removed [OF h1 h2 h3, of sampleTrips 1 200 "[(Frame (Animate 0), 300)]"]
      h1 h2 h3
    unfolding nextLeg_def by blast
qed

text \<open>
  C3, as the specification states it, fails. After the second leg has started, the frame
  callback of the first leg is still pending; when it fires it is not a no-op: it moves the
  end of the first leg's polyline and asks for the next frame.
\<close>

theorem stale_callback_counterexample:
  "Frame (Animate 0) \<in> set (pending nextLeg) \<and>
   latlngs (objs (fire nextLeg (Frame (Animate 0), 300)) ! 0) \<noteq> latlngs (objs nextLeg ! 0) \<and>
   Frame (Animate 0) \<in> set (pending (fire nextLeg (Frame (Animate 0), 300)))"
  by (simp add: nextLeg_def midFlight_def world_defs sample_defs Let_def)

lemma progressAt_done:
  assumes "t0 + 2500 \<le> now"
  shows "progressAt t0 now = 1"
proof -
  have "(2500::real) \<le> real_of_int (now - t0)"
    using assms by linarith
  then have "1 \<le> real_of_int (now - t0) / 2500"
    by simp
  then show ?thesis
    by (simp add: progressAt_def Let_def min_def)
qed

lemma interpolateCoords_end: "interpolateCoords s e 1 = e"
  by (simp add: interpolateCoords_def)

lemma animate_marker_latlngs:
  assumes "r < length (runs w)" and "marker (runs w ! r) < length (objs w)"
  shows "latlngs (objs (animate w r now) ! marker (runs w ! r)) =
           [interpolateCoords (startCoords (runs w ! r)) (endCoords (runs w ! r))
              (progressAt (startTime (runs w ! r)) now)]"
  using assms
  by (simp add: animate_def run_at_def Let_def setLatLngs_at setLatLngs_fields)

lemma animate_polyline_latlngs:
  assumes "r < length (runs w)" and "polyline (runs w ! r) < length (objs w)"
    and "polyline (runs w ! r) \<noteq> marker (runs w ! r)"
  shows "latlngs (objs (animate w r now) ! polyline (runs w ! r)) =
           [startCoords (runs w ! r),
            interpolateCoords (startCoords (runs w ! r)) (endCoords (runs w ! r))
              (progressAt (startTime (runs w ! r)) now)]"
  using assms
  by (simp add: animate_def run_at_def Let_def setLatLngs_at setLatLngs_other setLatLngs_fields)

lemma animate_fields:
  "onMap (animate w r now) = onMap w"
  "r < length (runs w) \<Longrightarrow>
     runs (animate w r now) =
       (runs w)[r := (runs w ! r)\<lparr>animationProgress := progressAt (startTime (runs w ! r)) now\<rparr>]"
  "r < length (runs w) \<Longrightarrow>
     pending (animate w r now) =
       pending w @ [if progressAt (startTime (runs w ! r)) now < 1
                    then Frame (Animate r) else Timeout 800 (HideMarker r)]"
  by (simp_all add: animate_def run_at_def Let_def setLatLngs_fields)

lemma hideMarker_onMap:
  "r < length (runs w) \<Longrightarrow> onMap (hideMarker w r) = removeAll (marker (runs w ! r)) (onMap w)"
  by (simp add: hideMarker_def run_at_def hasLayer_def removeLayer_def)

lemma fire_hideMarker_onMap:
  assumes "r < length (runs w)" and "Timeout d (HideMarker r) \<in> set (pending w)"
  shows "onMap (fire w (Timeout d (HideMarker r), t)) = removeAll (marker (runs w ! r)) (onMap w)"
proof -
  let ?w = "w\<lparr>pending := remove1 (Timeout d (HideMarker r)) (pending w)\<rparr>"
  have "fire w (Timeout d (HideMarker r), t) = hideMarker ?w r"
    using assms(2) by (simp add: fire_def)
  moreover have "onMap (hideMarker ?w r) = removeAll (marker (runs ?w ! r)) (onMap ?w)"
    using assms(1) by (intro hideMarker_onMap) simp
  ultimately show ?thesis by simp
qed

text \<open>
  C6. In the effect of LeafletMap, a call of \<open>animate\<close> at 2500 ms or more after the start
  sets the progress to 1, draws the polyline from the start to the end of the leg, puts
  the marker on the end, asks for no further frame and sets one timer of 800 ms. When that
  timer fires, the marker is off the map and the polyline, if it was on the map, stays on
  it.
\<close>

theorem settling_after_completion:
  assumes "r < length (runs w)"
    and "polyline (runs w ! r) < length (objs w)"
    and "marker (runs w ! r) < length (objs w)"
    and "polyline (runs w ! r) \<noteq> marker (runs w ! r)"
    and "startTime (runs w ! r) + 2500 \<le> now"
  shows "animationProgress (runs (animate w r now) ! r) = 1 \<and>
         latlngs (objs (animate w r now) ! polyline (runs w ! r)) =
           [startCoords (runs w ! r), endCoords (runs w ! r)] \<and>
         latlngs (objs (animate w r now) ! marker (runs w ! r)) = [endCoords (runs w ! r)] \<and>
         pending (animate w r now) = pending w @ [Timeout 800 (HideMarker r)] \<and>
         onMap (animate w r now) = onMap w \<and>
         marker (runs w ! r) \<notin> set (onMap (hideMarker (animate w r now) r)) \<and>
         (polyline (runs w ! r) \<in> set (onMap w) \<longrightarrow>
            polyline (runs w ! r) \<in> set (onMap (hideMarker (animate w r now) r))) \<and>
         marker (runs w ! r) \<notin>
           set (onMap (fire (animate w r now) (Timeout 800 (HideMarker r), t))) \<and>
         (polyline (runs w ! r) \<in> set (onMap w) \<longrightarrow>
            polyline (runs w ! r) \<in>
              set (onMap (fire (animate w r now) (Timeout 800 (HideMarker r), t))))"
proof -
  let ?rn = "runs w ! r"
  let ?w' = "animate w r now"
  have p: "progressAt (startTime ?rn) now = 1"
    using assms(5) by (rule progressAt_done)
  have runs': "runs ?w' = (runs w)[r := ?rn\<lparr>animationProgress := 1\<rparr>]"
    using assms(1) p by (simp add: animate_fields)
  have c1: "animationProgress (runs ?w' ! r) = 1"
    using assms(1) by (simp add: runs')
  have c2: "latlngs (objs ?w' ! polyline ?rn) = [startCoords ?rn, endCoords ?rn]"
    using assms(1,2,4) p by (simp add: animate_polyline_latlngs interpolateCoords_end)
  have c3: "latlngs (objs ?w' ! marker ?rn) = [endCoords ?rn]"
    using assms(1,3) p by (simp add: animate_marker_latlngs interpolateCoords_end)
  have c4: "pending ?w' = pending w @ [Timeout 800 (HideMarker r)]"
    using assms(1) p by (simp add: animate_fields)
  have c5: "onMap ?w' = onMap w"
    by (simp add: animate_fields)
  have len: "r < length (runs ?w')" and mk: "marker (runs ?w' ! r) = marker ?rn"
    using assms(1) by (simp_all add: runs')
  have hm: "onMap (hideMarker ?w' r) = removeAll (marker ?rn) (onMap w)"
    using hideMarker_onMap [OF len] by (simp add: mk c5)
  have c6: "marker ?rn \<notin> set (onMap (hideMarker ?w' r))"
    by (simp add: hm)
  have c7: "polyline ?rn \<in> set (onMap w) \<longrightarrow> polyline ?rn \<in> set (onMap (hideMarker ?w' r))"
    using assms(4) by (simp add: hm)
  have "Timeout 800 (HideMarker r) \<in> set (pending ?w')"
    by (simp add: c4)
  with len have fm: "onMap (fire ?w' (Timeout 800 (HideMarker r), t)) =
      removeAll (marker ?rn) (onMap w)"
    using fire_hideMarker_onMap [of r ?w' 800 t] by (simp add: mk c5)
  have c8: "marker ?rn \<notin> set (onMap (fire ?w' (Timeout 800 (HideMarker r), t)))"
    by (simp add: fm)
  have c9: "polyline ?rn \<in> set (onMap w) \<longrightarrow>
      polyline ?rn \<in> set (onMap (fire ?w' (Timeout 800 (HideMarker r), t)))"
    using assms(4) by (simp add: fm)
  show ?thesis using c1 c2 c3 c4 c5 c6 c7 c8 c9 by blast
qed

text \<open>
  C6, witness: the first leg of the sample journey, animated at time 2500; its timer fires
  at time 3300.
\<close>

theorem settling_after_completion_witness:
  "0 < length (runs midFlight) \<and>
   polyline (runs midFlight ! 0) < length (objs midFlight) \<and>
   marker (runs midFlight ! 0) < length (objs midFlight) \<and>
   polyline (runs midFlight ! 0) \<noteq> marker (runs midFlight ! 0) \<and>
   startTime (runs midFlight ! 0) + 2500 \<le> 2500 \<and>
   polyline (runs midFlight ! 0) \<in> set (onMap midFlight) \<and>
   pending (animate midFlight 0 2500) = [Frame (Animate 0), Timeout 800 (HideMarker 0)] \<and>
   latlngs (objs (animate midFlight 0 2500) ! 1) = [(36.1699, - 115.1398)] \<and>
   onMap (hideMarker (animate midFlight 0 2500) 0) = [0] \<and>
   onMap (fire (animate midFlight 0 2500) (Timeout 800 (HideMarker 0), 3300)) = [0]"
proof -
  have h1: "0 < length (runs midFlight)" by (simp add: midFlight_eval)
  have h2: "polyline (runs midFlight ! 0) < length (objs midFlight)"
    by (simp add: midFlight_eval)
  have h3: "marker (runs midFlight ! 0) < length (objs midFlight)"
    by (simp add: midFlight_eval)
  have h4: "polyline (runs midFlight ! 0) \<noteq> marker (runs midFlight ! 0)"
    by (simp add: midFlight_eval)
  have h5: "startTime (runs midFlight ! 0) + 2500 \<le> 2500"
    by (simp add: midFlight_eval)
  have h6: "polyline (runs midFlight ! 0) \<in> set (onMap midFlight)"
    by (simp add: midFlight_eval)
  note inst = settling_after_completion [OF h1 h2 h3 h4 h5, of 3300]
  have a: "pending (animate midFlight 0 2500) = [Frame (Animate 0), Timeout 800 (HideMarker 0)]"
    using inst by (simp add: midFlight_eval)
  have b: "latlngs (objs (animate midFlight 0 2500) ! 1) = [(36.1699, - 115.1398)]"
    using inst by (simp add: midFlight_eval)
  have c: "onMap (hideMarker (animate midFlight 0 2500) 0) = [0]"
    by (simp add: midFlight_def world_defs sample_defs Let_def)
  have d: "onMap (fire (animate midFlight 0 2500) (Timeout 800 (HideMarker 0), 3300)) = [0]"
    by (simp add: midFlight_def world_defs sample_defs Let_def)
  show ?thesis using h1 h2 h3 h4 h5 h6 a b c d by blast
qed

text \<open>
  C7, as the code does it. The position is \<open>start + (end - start) * progress\<close> in each
  coordinate; it is the start of the leg at progress 0 and the end of the leg at progress
  1. The progress is \<open>min ((now - startTime) / 2500) 1\<close>: it is at most 1, and it is at least
  0 when the clock has not gone back behind the start time. The marker is put on the
  position interpolated at that progress.
\<close>

theorem interpolation_endpoints:
  "interpolateCoords s e p = (fst s + (fst e - fst s) * p, snd s + (snd e - snd s) * p) \<and>
   interpolateCoords s e 0 = s \<and>
   interpolateCoords s e 1 = e \<and>
   progressAt t0 now = min (real_of_int (now - t0) / 2500) 1 \<and>
   progressAt t0 now \<le> 1 \<and>
   (t0 \<le> now \<longrightarrow> 0 \<le> progressAt t0 now) \<and>
   (r < length (runs w) \<and> marker (runs w ! r) < length (objs w) \<longrightarrow>
      latlngs (objs (animate w r now) ! marker (runs w ! r)) =
        [interpolateCoords (startCoords (runs w ! r)) (endCoords (runs w ! r))
           (progressAt (startTime (runs w ! r)) now)])"
  using animate_marker_latlngs [of r w now]
  by (simp add: interpolateCoords_def progressAt_def)

text \<open>
  C7, witness: half of the duration after the start the progress is one half and the
  marker of the first sample leg is at the mean of the two end points.
\<close>

theorem interpolation_endpoints_witness:
  "(0::int) \<le> 1250 \<and> progressAt 0 1250 = 1 / 2 \<and>
   0 < length (runs midFlight) \<and> marker (runs midFlight ! 0) < length (objs midFlight) \<and>
   latlngs (objs (animate midFlight 0 1250) ! 1) = [(35.11105, - 116.69175)]"
proof -
  have h1: "0 < length (runs midFlight) \<and> marker (runs midFlight ! 0) < length (objs midFlight)"
    by (simp add: midFlight_eval)
  have p: "progressAt 0 1250 = 1 / 2" by (simp add: progressAt_def)
  have "latlngs (objs (animate midFlight 0 1250) ! marker (runs midFlight ! 0)) =
        [interpolateCoords (startCoords (runs midFlight ! 0)) (endCoords (runs midFlight ! 0))
           (progressAt (startTime (runs midFlight ! 0)) 1250)]"
    using interpolation_endpoints [where w = midFlight and r = 0 and now = 1250] h1 by blast
  then have "latlngs (objs (animate midFlight 0 1250) ! 1) = [(35.11105, - 116.69175)]"
    by (simp add: midFlight_eval p interpolateCoords_def)
  with h1 p show ?thesis by simp
qed

text \<open>
  C7, as the specification states it, fails on the lower bound: the progress is not
  clamped at 0. With a start time of 1000 and a clock that reads 0 the progress is -2/5 and
  the interpolated position lies behind the start of the leg.
\<close>

theorem progress_below_zero_counterexample:
  "progressAt 1000 0 = - 2 / 5 \<and> \<not> 0 \<le> progressAt 1000 0 \<and>
   interpolateCoords (0, 0) (10, 20) (progressAt 1000 0) = (- 4, - 8)"
  by (simp add: progressAt_def interpolateCoords_def)

lemma journeyEffect_started:
  assumes "journeyEffect w trips idx now = (w', Some r)"
  shows "r = length (runs w) \<and>
         length (runs w') = Suc (length (runs w)) \<and>
         marker (runs w' ! r) = Suc (length (objs w)) \<and>
         length (objs w') = Suc (Suc (length (objs w))) \<and>
         rotation (objs w' ! Suc (length (objs w))) =
           Some (calculateRotation (getCurrentJourneyPath trips idx ! 0)
                                   (getCurrentJourneyPath trips idx ! 1))"
  using assms
  by (auto simp: journeyEffect_def clearAnimatedJourney_def addTo_def Let_def nth_append
           split: option.splits if_splits)

lemma journeyEffect_path:
  assumes "journeyEffect w trips idx now = (w', Some r)"
  shows "\<exists>s e. getCurrentJourneyPath trips idx = [s, e]"
proof -
  have "length (getCurrentJourneyPath trips idx) > 1"
    using assms by (auto simp: journeyEffect_def Let_def split: option.splits if_splits)
  then have "length (getCurrentJourneyPath trips idx) = 2"
    using getCurrentJourneyPath_length [of trips idx] by auto
  then show ?thesis
    by (auto simp: length_Suc_conv numeral_2_eq_2)
qed

lemma keeps_marker_rotation:
  assumes "keeps w w'" and "r < length (runs w)" and "marker (runs w ! r) < length (objs w)"
  shows "rotation (objs w' ! marker (runs w' ! r)) = rotation (objs w ! marker (runs w ! r))"
proof -
  have mr: "map marker (runs w') = map marker (runs w)"
    and ro: "map rotation (objs w') = map rotation (objs w)"
    using assms(1) by (simp_all add: keeps_def)
  have lr: "length (runs w') = length (runs w)"
    using mr by (metis length_map)
  have lo: "length (objs w') = length (objs w)"
    using ro by (metis length_map)
  have "marker (runs w' ! r) = map marker (runs w') ! r"
    using assms(2) lr by simp
  also have "\<dots> = marker (runs w ! r)"
    using assms(2) by (simp add: mr)
  finally have m: "marker (runs w' ! r) = marker (runs w ! r)" .
  have "rotation (objs w' ! marker (runs w ! r)) = map rotation (objs w') ! marker (runs w ! r)"
    using assms(3) lo by simp
  also have "\<dots> = rotation (objs w ! marker (runs w ! r))"
    using assms(3) by (simp add: ro)
  finally show ?thesis by (simp add: m)
qed

text \<open>
  C8. An animation that the effect of LeafletMap starts has a leg of two points; the
  rotation of its marker is \<open>atan2 (delta longitude) (delta latitude)\<close> in degrees,
  computed from the end points of the leg when the marker is created, and no callback
  that runs later, in any order, changes it.
\<close>

theorem rotation_fixed_at_start:
  assumes "journeyEffect w trips idx now = (w', Some r)"
  shows "\<exists>s e. getCurrentJourneyPath trips idx = [s, e] \<and>
           calculateRotation s e = atan2 (snd e - snd s) (fst e - fst s) * (180 / pi) \<and>
           rotation (objs w' ! marker (runs w' ! r)) = Some (calculateRotation s e) \<and>
           rotation (objs (fires w' evs) ! marker (runs (fires w' evs) ! r)) =
             Some (calculateRotation s e)"
proof -
  obtain s e where path: "getCurrentJourneyPath trips idx = [s, e]"
    using journeyEffect_path [OF assms] by blast
  note st = journeyEffect_started [OF assms]
  have r: "r < length (runs w')"
    using st by linarith
  have m: "marker (runs w' ! r) < length (objs w')"
    using st by linarith
  have mk: "marker (runs w' ! r) = Suc (length (objs w))"
    using st by blast
  have "rotation (objs w' ! Suc (length (objs w))) =
          Some (calculateRotation (getCurrentJourneyPath trips idx ! 0)
                                  (getCurrentJourneyPath trips idx ! 1))"
    using st by blast
  then have rot: "rotation (objs w' ! marker (runs w' ! r)) = Some (calculateRotation s e)"
    unfolding mk by (simp add: path)
  have "rotation (objs (fires w' evs) ! marker (runs (fires w' evs) ! r)) =
          rotation (objs w' ! marker (runs w' ! r))"
    using keeps_fires [of w' evs] r m by (rule keeps_marker_rotation)
  then have held: "rotation (objs (fires w' evs) ! marker (runs (fires w' evs) ! r)) =
          Some (calculateRotation s e)"
    by (simp add: rot)
  have "calculateRotation s e = atan2 (snd e - snd s) (fst e - fst s) * (180 / pi)"
    by (simp add: calculateRotation_def)
  with path rot held show ?thesis by blast
qed

lemma firstLeg_eval:
  "journeyEffect emptyMap sampleTrips 0 0 =
     (\<lparr>mapLoaded = True,
       objs = [\<lparr>className = Some ''animated-journey'', color = Some ''#8B5CF6'',
                latlngs = [(34.0522, - 118.2437), (34.0522, - 118.2437)], rotation = None\<rparr>,
               \<lparr>className = None, color = None, latlngs = [(34.0522, - 118.2437)],
                rotation = Some (calculateRotation (34.0522, - 118.2437) (36.1699, - 115.1398))\<rparr>],
       onMap = [0, 1],
       runs = [\<lparr>startCoords = (34.0522, - 118.2437), endCoords = (36.1699, - 115.1398),
                startTime = 0, animationProgress = 0, polyline = 0, marker = 1\<rparr>],
       pending = [Timeout 100 (Animate 0)]\<rparr>, Some 0)"
  by (simp add: world_defs sample_defs Let_def)

text \<open>
  C8, witness: the first leg of the sample journey after its first frame.
\<close>

theorem rotation_fixed_at_start_witness:
  "journeyEffect emptyMap sampleTrips 0 0 = (fst (journeyEffect emptyMap sampleTrips 0 0), Some 0) \<and>
   rotation (objs midFlight ! marker (runs midFlight ! 0)) =
     Some (atan2 (- 115.1398 - - 118.2437) (36.1699 - 34.0522) * (180 / pi))"
proof -
  have e: "journeyEffect emptyMap sampleTrips 0 0 =
             (fst (journeyEffect emptyMap sampleTrips 0 0), Some 0)"
    by (simp add: firstLeg_eval)
  have p: "getCurrentJourneyPath sampleTrips 0 = [(34.0522, - 118.2437), (36.1699, - 115.1398)]"
    by (simp add: sample_defs)
  from rotation_fixed_at_start [OF e, of "[(Timeout 100 (Animate 0), 100)]"] obtain s e where
    se: "getCurrentJourneyPath sampleTrips 0 = [s, e]" and
    cr: "calculateRotation s e = atan2 (snd e - snd s) (fst e - fst s) * (180 / pi)" and
    held: "rotation (objs midFlight ! marker (runs midFlight ! 0)) = Some (calculateRotation s e)"
    unfolding midFlight_def by blast
  have "s = (34.0522, - 118.2437)" and "e = (36.1699, - 115.1398)"
    using se p by simp_all
  then have a: "rotation (objs midFlight ! marker (runs midFlight ! 0)) =
     Some (atan2 (- 115.1398 - - 118.2437) (36.1699 - 34.0522) * (180 / pi))"
    using held cr by simp
  show ?thesis using e a by blast
qed

lemma journeyEffect_noop:
  "getCurrentJourneyPath trips cursor = [] \<Longrightarrow> journeyEffect w trips cursor now = (w, None)"
  by (simp add: journeyEffect_def split: option.split)

lemma beyond_last:
  assumes "trips \<noteq> []" and "int (length trips) \<le> cursor"
  shows "getCurrentJourneyPath trips cursor = []" and "visibleTrips trips cursor = trips"
  using assms
  by (simp_all add: getCurrentJourneyPath_def currentTrip_def js_index_def
        visibleTrips_def js_slice0_def Let_def)

text \<open>
  C9, as the code does it. For every journey and every cursor the viewport computation
  returns a viewport and throws nothing. For a non-empty journey without a leg: when a
  trip is visible the viewport is centred on the departure of the first visible trip with
  zoom 8, which is the case for every cursor at or beyond the length of the journey; when
  no trip is visible the viewport is the default centre with zoom 4. Without a leg the
  effect changes nothing and starts no animation.
\<close>

theorem safe_fallbacks:
  "(\<exists>b. getMapBounds trips cursor = Inr b) \<and>
   (trips \<noteq> [] \<and> getCurrentJourneyPath trips cursor = [] \<and>
    visibleTrips trips cursor \<noteq> [] \<longrightarrow>
      getMapBounds trips cursor =
        Inr \<lparr>center = coords (departureLocation (hd (visibleTrips trips cursor))), zoom = 8\<rparr>) \<and>
   (trips \<noteq> [] \<and> getCurrentJourneyPath trips cursor = [] \<and>
    visibleTrips trips cursor = [] \<longrightarrow>
      getMapBounds trips cursor = Inr \<lparr>center = (39.8283, - 98.5795), zoom = 4\<rparr>) \<and>
   (trips \<noteq> [] \<and> int (length trips) \<le> cursor \<longrightarrow>
      getCurrentJourneyPath trips cursor = [] \<and>
      getMapBounds trips cursor =
        Inr \<lparr>center = coords (departureLocation (hd trips)), zoom = 8\<rparr>) \<and>
   (getCurrentJourneyPath trips cursor = [] \<longrightarrow>
      journeyEffect w trips cursor now = (w, None))"
proof -
  have total: "\<exists>b. getMapBounds trips cursor = Inr b"
  proof (cases "getCurrentJourneyPath trips cursor")
    case Nil
    then show ?thesis
      by (cases "visibleTrips trips cursor") (simp_all add: getMapBounds_unresolved)
  next
    case (Cons a rest)
    then have "length (getCurrentJourneyPath trips cursor) = 2"
      using getCurrentJourneyPath_length [of trips cursor] by simp
    with Cons obtain b where "getCurrentJourneyPath trips cursor = [a, b]"
      by (cases rest) auto
    then show ?thesis
      using getMapBounds_resolved [of trips cursor "fst a" "snd a" "fst b" "snd b"] by simp
  qed
  have visible: "getMapBounds trips cursor =
        Inr \<lparr>center = coords (departureLocation (hd (visibleTrips trips cursor))), zoom = 8\<rparr>"
    if "getCurrentJourneyPath trips cursor = []" and "visibleTrips trips cursor \<noteq> []"
    using that by (cases "visibleTrips trips cursor") (simp_all add: getMapBounds_unresolved)
  have hidden: "getMapBounds trips cursor = Inr \<lparr>center = (39.8283, - 98.5795), zoom = 4\<rparr>"
    if "getCurrentJourneyPath trips cursor = []" and "visibleTrips trips cursor = []"
    using that by (simp add: getMapBounds_unresolved)
  have beyond: "getCurrentJourneyPath trips cursor = [] \<and>
      getMapBounds trips cursor = Inr \<lparr>center = coords (departureLocation (hd trips)), zoom = 8\<rparr>"
    if "trips \<noteq> []" and "int (length trips) \<le> cursor"
    using that visible beyond_last [OF that] by simp
  show ?thesis
    using total visible hidden beyond journeyEffect_noop [of trips cursor w now] by blast
qed

text \<open>
  C9, witness: the sample journey with the cursor 5, beyond its end, and with the
  cursor -1.
\<close>

theorem safe_fallbacks_witness:
  "sampleTrips \<noteq> [] \<and> int (length sampleTrips) \<le> 5 \<and>
   getCurrentJourneyPath sampleTrips 5 = [] \<and> visibleTrips sampleTrips 5 \<noteq> [] \<and>
   getMapBounds sampleTrips 5 = Inr \<lparr>center = (34.0522, - 118.2437), zoom = 8\<rparr> \<and>
   journeyEffect emptyMap sampleTrips 5 0 = (emptyMap, None) \<and>
   getCurrentJourneyPath sampleTrips (- 1) = [] \<and> visibleTrips sampleTrips (- 1) = [] \<and>
   getMapBounds sampleTrips (- 1) = Inr \<lparr>center = (39.8283, - 98.5795), zoom = 4\<rparr>"
proof -
  have ne: "sampleTrips \<noteq> []" by (simp add: sampleTrips_def)
  have len: "int (length sampleTrips) \<le> 5" by (simp add: sampleTrips_def)
  have v5: "visibleTrips sampleTrips 5 \<noteq> []"
    by (simp add: visibleTrips_def js_slice0_def sampleTrips_def)
  have pm: "getCurrentJourneyPath sampleTrips (- 1) = []"
    by (simp add: getCurrentJourneyPath_def currentTrip_def js_index_def)
  have vm: "visibleTrips sampleTrips (- 1) = []"
    by (simp add: visibleTrips_def js_slice0_def)
  note at5 = safe_fallbacks [where trips = sampleTrips and cursor = 5 and w = emptyMap and now = 0]
  note atm = safe_fallbacks [where trips = sampleTrips and cursor = "- 1"]
  have p5: "getCurrentJourneyPath sampleTrips 5 = []"
    using at5 ne len by blast
  have "getMapBounds sampleTrips 5 =
          Inr \<lparr>center = coords (departureLocation (hd sampleTrips)), zoom = 8\<rparr>"
    using at5 ne len by blast
  then have b5: "getMapBounds sampleTrips 5 = Inr \<lparr>center = (34.0522, - 118.2437), zoom = 8\<rparr>"
    by (simp add: sampleTrips_def coords_def losAngeles_def)
  have e5: "journeyEffect emptyMap sampleTrips 5 0 = (emptyMap, None)"
    using at5 p5 by blast
  have bm: "getMapBounds sampleTrips (- 1) = Inr \<lparr>center = (39.8283, - 98.5795), zoom = 4\<rparr>"
    using atm ne pm vm by blast
  show ?thesis using ne len p5 v5 b5 e5 pm vm bm by blast
qed

text \<open>
  C9, as the specification states it, fails at the cursor -1: the sample journey is not
  empty and has no leg there, no trip is visible, and the viewport is the default centre
  with zoom 4, not the departure of the first trip with zoom 8.
\<close>

theorem no_visible_trip_counterexample:
  "sampleTrips \<noteq> [] \<and>
   getCurrentJourneyPath sampleTrips (- 1) = [] \<and>
   visibleTrips sampleTrips (- 1) = [] \<and>
   getMapBounds sampleTrips (- 1) = Inr \<lparr>center = (39.8283, - 98.5795), zoom = 4\<rparr> \<and>
   getMapBounds sampleTrips (- 1) \<noteq>
     Inr \<lparr>center = coords (departureLocation (sampleTrips ! 0)), zoom = 8\<rparr>"
proof -
  have ne: "sampleTrips \<noteq> []" by (simp add: sampleTrips_def)
  have pm: "getCurrentJourneyPath sampleTrips (- 1) = []"
    by (simp add: getCurrentJourneyPath_def currentTrip_def js_index_def)
  have vm: "visibleTrips sampleTrips (- 1) = []"
    by (simp add: visibleTrips_def js_slice0_def)
  have bm: "getMapBounds sampleTrips (- 1) = Inr \<lparr>center = (39.8283, - 98.5795), zoom = 4\<rparr>"
    by (simp add: getMapBounds_def vm)
  have "getMapBounds sampleTrips (- 1) \<noteq>
          Inr \<lparr>center = coords (departureLocation (sampleTrips ! 0)), zoom = 8\<rparr>"
    by (simp add: bm)
  with ne pm vm bm show ?thesis by blast
qed

end
